theory Spec2Isabelle
  imports Complex_Main "HOL-Library.Multiset"
begin

section \<open>Data frames of the notebooks\<close>

text \<open>
  A pandas frame is a list of rows, in row order; a column is a record field. Tables that
  carry an \<open>item_id\<close> column extend one base record, so that the interaction table and the
  provider-gender association table share the column name as they do in the notebooks.
  A float cell that may be missing is \<open>NaN\<close> or a number. The value of a finite binary64
  number is a rational; where the notebooks do arithmetic on floats, the rounding of each
  operation is written out (\<open>fl\<close> below).
\<close>

datatype float_cell = NaN | Num rat

fun isnan :: "float_cell \<Rightarrow> bool" where
  "isnan NaN = True"
| "isnan (Num x) = False"

record item_row =
  item_id :: int

text \<open>The csv \<open>ml1m-dir-gender\<close>: \<open>item_id, gender_1, gender_2\<close>.\<close>

record gender_row = item_row +
  gender_1 :: float_cell
  gender_2 :: float_cell

text \<open>The two columns the provider-fairness notebook adds, to whatever table carries them.\<close>

record share_cols =
  minority :: float_cell
  majority :: float_cell

text \<open>
  The interaction csv: \<open>user_id, item_id, rating, timestamp, type, type_id\<close>. The notebooks
  add columns to it (a merge, the splitter); they land in the extension of the record, so
  every function below works on \<open>'a interaction_scheme\<close>, whatever columns were added.
\<close>

record interaction = item_row +
  user_id :: int
  rating :: rat
  timestamp :: int
  type_col :: string
  type_id :: int

text \<open>The three columns the splitter adds: \<open>set\<close>, \<open>user_id_original\<close>, \<open>item_id_original\<close>.\<close>

record split_cols =
  set_col :: string
  user_id_original :: int
  item_id_original :: int

section \<open>Group representation (provider-fairness notebook, step 1)\<close>

text \<open>
  \<^verbatim>\<open>gender_item_association['minority'] = gender_item_association['gender_1'].apply(lambda x: 1.0 if math.isnan(x) else x)\<close>
  \<^verbatim>\<open>gender_item_association['majority'] = gender_item_association['gender_2'].apply(lambda x: 0.0 if math.isnan(x) else x)\<close>
  \<^verbatim>\<open>del gender_item_association['gender_1']\<close>
  \<^verbatim>\<open>del gender_item_association['gender_2']\<close>
  The two lambdas, then the four statements on one row, then on the frame.
\<close>

definition minority_lambda :: "float_cell \<Rightarrow> float_cell" where
  "minority_lambda x = (if isnan x then Num 1 else x)"

definition majority_lambda :: "float_cell \<Rightarrow> float_cell" where
  "majority_lambda x = (if isnan x then Num 0 else x)"

definition association_row :: "gender_row \<Rightarrow> share_cols item_row_scheme" where
  "association_row g =
     \<lparr>item_id = item_id g,
      \<dots> = \<lparr>minority = minority_lambda (gender_1 g), majority = majority_lambda (gender_2 g)\<rparr>\<rparr>"

definition gender_item_association :: "gender_row list \<Rightarrow> share_cols item_row_scheme list" where
  "gender_item_association table = map association_row table"

text \<open>Reading a share column of an association row, and the sum of the two shares.\<close>

definition minority_share :: "share_cols item_row_scheme \<Rightarrow> float_cell" where
  "minority_share a = minority (item_row.more a)"

definition majority_share :: "share_cols item_row_scheme \<Rightarrow> float_cell" where
  "majority_share a = majority (item_row.more a)"

fun fadd :: "float_cell \<Rightarrow> float_cell \<Rightarrow> float_cell" where
  "fadd (Num x) (Num y) = Num (x + y)"
| "fadd _ _ = NaN"

section \<open>The time-based splitter \<open>user_timestamp\<close> (model-setup notebook, step 2)\<close>

datatype error = UnboundLocalError | ValueError

text \<open>
  \<^verbatim>\<open>interactions.groupby([user_field])\<close>: one group per distinct user, the groups in
  ascending order of the key, the rows of a group in their order in the frame.
\<close>

definition groupby_user ::
  "'a interaction_scheme list \<Rightarrow> (int \<times> 'a interaction_scheme list) list" where
  "groupby_user interactions =
     map (\<lambda>u. (u, filter (\<lambda>r. user_id r = u) interactions))
         (sorted_list_of_set (set (map user_id interactions)))"

text \<open>
  Python floats are IEEE 754 binary64, every operation rounded to the nearest representable
  number, ties to the even significand. \<open>fl\<close> rounds a rational that way: 53 significant
  bits in the binade of \<open>x\<close>, the spacing fixed at \<open>2\<^sup>-\<^sup>1\<^sup>0\<^sup>7\<^sup>4\<close> below \<open>2\<^sup>-\<^sup>1\<^sup>0\<^sup>2\<^sup>2\<close>. Results
  beyond the largest finite float (infinities) do not arise from row counts and ratios and
  are not modelled. \<open>ilog2 n\<close> is \<open>\<lfloor>log\<^sub>2 n\<rfloor>\<close> for \<open>n \<ge> 1\<close>, and \<open>exponent x\<close> is
  \<open>\<lfloor>log\<^sub>2 x\<rfloor>\<close> for \<open>x > 0\<close>.
\<close>

fun ilog2 :: "nat \<Rightarrow> nat" where
  "ilog2 n = (if n < 2 then 0 else Suc (ilog2 (n div 2)))"

definition exponent :: "rat \<Rightarrow> int" where
  "exponent x =
     (if 1 \<le> x then int (ilog2 (nat \<lfloor>x\<rfloor>))
      else - int (let m = nat \<lceil>1 / x\<rceil> in if m \<le> 1 then 0 else Suc (ilog2 (m - 1))))"

definition pow2 :: "int \<Rightarrow> rat" where
  "pow2 e = (if 0 \<le> e then 2 ^ nat e else 1 / 2 ^ nat (- e))"

definition round_half_even :: "rat \<Rightarrow> int" where
  "round_half_even x =
     (let f = \<lfloor>x\<rfloor>; d = x - of_int f
      in if d < 1 / 2 then f else if 1 / 2 < d then f + 1 else if even f then f else f + 1)"

definition fl :: "rat \<Rightarrow> rat" where
  "fl x =
     (if x = 0 then 0
      else let ulp = pow2 (max (exponent \<bar>x\<bar>) (- 1022) - 52)
           in sgn x * of_int (round_half_even (\<bar>x\<bar> / ulp)) * ulp)"

text \<open>
  The float operations of \<open>int(len(sorted_group.index) * (1.0 - split))\<close>: the difference
  of two floats, the conversion of the integer length, the product of two floats; then
  Python's \<open>int()\<close>, which truncates towards zero.
\<close>

definition float_sub :: "rat \<Rightarrow> rat \<Rightarrow> rat" where
  "float_sub x y = fl (x - y)"

definition float_of_int :: "int \<Rightarrow> rat" where
  "float_of_int n = fl (of_int n)"

definition float_mul :: "rat \<Rightarrow> rat \<Rightarrow> rat" where
  "float_mul x y = fl (x * y)"

definition py_int :: "rat \<Rightarrow> int" where
  "py_int x = (if 0 \<le> x then \<lfloor>x\<rfloor> else \<lceil>x\<rceil>)"

text \<open>
  \<open>DataFrame.head(n)\<close> is \<open>iloc[:n]\<close> and \<open>DataFrame.tail(n)\<close> is \<open>iloc[-n:]\<close>, empty
  for \<open>n = 0\<close>; a negative \<open>n\<close> leaves out the last (first) \<open>-n\<close> rows.
\<close>

definition head :: "int \<Rightarrow> 'r list \<Rightarrow> 'r list" where
  "head n df = (if 0 \<le> n then take (nat n) df else take (length df - nat (- n)) df)"

definition tail :: "int \<Rightarrow> 'r list \<Rightarrow> 'r list" where
  "tail n df =
     (if n = 0 then [] else if 0 < n then drop (length df - nat n) df else drop (nat (- n)) df)"

text \<open>
  The body of the loop over the groups, on the pair of accumulators:
  \<^verbatim>\<open>if len(group.index) < min_samples: continue\<close>
  \<^verbatim>\<open>sorted_group = group.sort_values(time_field)\<close>
  \<^verbatim>\<open>n_rating_test = int(len(sorted_group.index) * (1.0 - split))\<close>
  \<^verbatim>\<open>train_set.append(sorted_group.head(len(sorted_group.index) - n_rating_test))\<close>
  \<^verbatim>\<open>test_set.append(sorted_group.tail(n_rating_test))\<close>
  \<open>split\<close> is a float. \<open>sort_values\<close> sorts with numpy's quicksort by default, which is not
  stable: the frame comes back in non-decreasing order of the timestamp, and the order among
  rows of equal timestamp is whatever that sort leaves. The parameter \<open>ties\<close> stands for
  it: \<open>ties df i\<close> ranks position \<open>i\<close> of the frame \<open>df\<close>, the frame is first put in the order
  of the ranks and then sorted by timestamp with a stable sort. Every \<open>ties\<close> gives a
  sorted permutation of the frame, and every sorted permutation is given by some \<open>ties\<close>
  (rank each row by its place in it).
\<close>

definition sort_values ::
  "('a interaction_scheme list \<Rightarrow> nat \<Rightarrow> nat) \<Rightarrow> 'a interaction_scheme list \<Rightarrow>
   'a interaction_scheme list" where
  "sort_values ties df =
     sort_key timestamp (map snd (sort_key (\<lambda>p. ties df (fst p)) (enumerate 0 df)))"

definition split_user ::
  "('a interaction_scheme list \<Rightarrow> nat \<Rightarrow> nat) \<Rightarrow> rat \<Rightarrow> int \<Rightarrow>
   'a interaction_scheme list list \<times> 'a interaction_scheme list list \<Rightarrow>
   int \<times> 'a interaction_scheme list \<Rightarrow>
   'a interaction_scheme list list \<times> 'a interaction_scheme list list" where
  "split_user ties split min_samples acc g =
     (let train_set = fst acc; test_set = snd acc; group = snd g in
      if int (length group) < min_samples then (train_set, test_set)
      else
        let sorted_group = sort_values ties group;
            n_rating_test =
              py_int (float_mul (float_of_int (int (length sorted_group))) (float_sub 1 split))
        in (train_set @ [head (int (length sorted_group) - n_rating_test) sorted_group],
            test_set @ [tail n_rating_test sorted_group]))"

text \<open>\<open>pd.concat\<close> of an empty list raises \<open>ValueError\<close> (no objects to concatenate).\<close>

fun pd_concat :: "'r list list \<Rightarrow> error + 'r list" where
  "pd_concat [] = Inl ValueError"
| "pd_concat (df # dfs) = Inr (concat (df # dfs))"

text \<open>
  \<^verbatim>\<open>train['set'], test['set'] = 'train', 'test'\<close>, and after the concatenation
  \<^verbatim>\<open>traintest[user_field + '_original'] = traintest[user_field]\<close>
  \<^verbatim>\<open>traintest[item_field + '_original'] = traintest[item_field]\<close>:
  the three new columns of one row (the ids are not touched in between).
\<close>

definition mark :: "string \<Rightarrow> 'a interaction_scheme \<Rightarrow> 'a split_cols_scheme interaction_scheme" where
  "mark s r =
     \<lparr>item_id = item_id r, user_id = user_id r, rating = rating r, timestamp = timestamp r,
      type_col = type_col r, type_id = type_id r,
      \<dots> = \<lparr>set_col = s, user_id_original = user_id r, item_id_original = item_id r,
             \<dots> = interaction.more r\<rparr>\<rparr>"

definition set_of :: "'a split_cols_scheme interaction_scheme \<Rightarrow> string" where
  "set_of r = set_col (interaction.more r)"

definition user_original :: "'a split_cols_scheme interaction_scheme \<Rightarrow> int" where
  "user_original r = user_id_original (interaction.more r)"

definition item_original :: "'a split_cols_scheme interaction_scheme \<Rightarrow> int" where
  "item_original r = item_id_original (interaction.more r)"

text \<open>
  \<^verbatim>\<open>column.astype('category').cat.codes\<close>: the categories are the distinct values in
  ascending order, the code of a value is its position among them.
\<close>

fun index_of :: "'v list \<Rightarrow> 'v \<Rightarrow> nat" where
  "index_of [] v = 0"
| "index_of (c # cs) v = (if c = v then 0 else Suc (index_of cs v))"

definition cat_codes :: "int list \<Rightarrow> int list" where
  "cat_codes column =
     (let categories = sorted_list_of_set (set column)
      in map (\<lambda>v. int (index_of categories v)) column)"

definition user_timestamp ::
  "('a interaction_scheme list \<Rightarrow> nat \<Rightarrow> nat) \<Rightarrow> 'a interaction_scheme list \<Rightarrow> rat \<Rightarrow> int \<Rightarrow>
   error + 'a split_cols_scheme interaction_scheme list" where
  "user_timestamp ties interactions split min_samples =
     (let groups = groupby_user interactions;
          sets = foldl (split_user ties split min_samples) ([], []) groups;
          train_set = fst sets; test_set = snd sets
      in if groups = [] then Inl UnboundLocalError
         else
           case pd_concat train_set of Inl e \<Rightarrow> Inl e | Inr train \<Rightarrow>
          (case pd_concat test_set of Inl e \<Rightarrow> Inl e | Inr test \<Rightarrow>
             let traintest = map (mark ''train'') train @ map (mark ''test'') test;
                 traintest = map2 (\<lambda>r c. r\<lparr>user_id := c\<rparr>) traintest
                               (cat_codes (map user_id traintest));
                 traintest = map2 (\<lambda>r c. r\<lparr>item_id := c\<rparr>) traintest
                               (cat_codes (map item_id traintest))
             in Inr traintest))"

text \<open>
  The last statement of the loop's cell that can fail before the concatenation is
  \<^verbatim>\<open>print('\r> Parsing user', i+1, 'of', len(groups))\<close>: with no group the loop variable
  \<open>i\<close> was never bound. That is the \<open>UnboundLocalError\<close> branch above.
\<close>

section \<open>The category vector (model-setup notebook, step 3)\<close>

text \<open>
  \<^verbatim>\<open>category_per_item = traintest.drop_duplicates(subset=['item_id'], keep='first')[type_field].values\<close>
  \<open>drop_duplicates\<close> keeps, in the order of the frame, each row whose \<open>item_id\<close> did not
  occur in an earlier row.
\<close>

fun drop_duplicates_from :: "int list \<Rightarrow> 'a interaction_scheme list \<Rightarrow> 'a interaction_scheme list" where
  "drop_duplicates_from seen [] = []"
| "drop_duplicates_from seen (r # rs) =
     (if item_id r \<in> set seen then drop_duplicates_from seen rs
      else r # drop_duplicates_from (item_id r # seen) rs)"

definition drop_duplicates :: "'a interaction_scheme list \<Rightarrow> 'a interaction_scheme list" where
  "drop_duplicates df = drop_duplicates_from [] df"

definition category_per_item :: "'a interaction_scheme list \<Rightarrow> int list" where
  "category_per_item traintest = map type_id (drop_duplicates traintest)"


section \<open>Vocabulary for the properties of the splitter\<close>

text \<open>The rows of one user, in the order of the input frame (the group of \<open>groupby\<close>).\<close>

definition user_rows :: "int \<Rightarrow> 'a interaction_scheme list \<Rightarrow> 'a interaction_scheme list" where
  "user_rows u interactions = filter (\<lambda>r. user_id r = u) interactions"

text \<open>
  The input row behind a row of the split: the original ids put back, the three added
  columns taken away.
\<close>

definition unmark :: "'a split_cols_scheme interaction_scheme \<Rightarrow> 'a interaction_scheme" where
  "unmark r =
     \<lparr>item_id = item_original r, user_id = user_original r, rating = rating r,
      timestamp = timestamp r, type_col = type_col r, type_id = type_id r,
      \<dots> = split_cols.more (interaction.more r)\<rparr>"

text \<open>
  The pieces of \<open>user_timestamp\<close>, named so that the loop and the two recodings can be
  characterised once: the test of the \<open>continue\<close>, the value of \<open>n_rating_test\<close> for a
  group of \<open>n\<close> rows, the two frames appended per kept group, the frame before the
  recoding, and the recoding of one row.
\<close>

definition kept :: "int \<Rightarrow> (int \<times> 'r list) \<Rightarrow> bool" where
  "kept min_samples g = (\<not> int (length (snd g)) < min_samples)"

definition n_rating_test :: "nat \<Rightarrow> rat \<Rightarrow> int" where
  "n_rating_test n split = py_int (float_mul (float_of_int (int n)) (float_sub 1 split))"

definition train_part ::
  "('a interaction_scheme list \<Rightarrow> nat \<Rightarrow> nat) \<Rightarrow> rat \<Rightarrow> 'a interaction_scheme list \<Rightarrow>
   'a interaction_scheme list" where
  "train_part ties split df =
     head (int (length df) - n_rating_test (length df) split) (sort_values ties df)"

definition test_part ::
  "('a interaction_scheme list \<Rightarrow> nat \<Rightarrow> nat) \<Rightarrow> rat \<Rightarrow> 'a interaction_scheme list \<Rightarrow>
   'a interaction_scheme list" where
  "test_part ties split df = tail (n_rating_test (length df) split) (sort_values ties df)"

definition marked ::
  "('a interaction_scheme list \<Rightarrow> nat \<Rightarrow> nat) \<Rightarrow> rat \<Rightarrow> int \<Rightarrow> 'a interaction_scheme list \<Rightarrow>
   'a split_cols_scheme interaction_scheme list" where
  "marked ties split m I =
     map (mark ''train'')
       (concat (map (\<lambda>g. train_part ties split (snd g)) (filter (kept m) (groupby_user I)))) @
     map (mark ''test'')
       (concat (map (\<lambda>g. test_part ties split (snd g)) (filter (kept m) (groupby_user I))))"

definition recode_row :: "'a interaction_scheme list \<Rightarrow> 'a interaction_scheme \<Rightarrow> 'a interaction_scheme" where
  "recode_row T r =
     r\<lparr>user_id := int (index_of (sorted_list_of_set (set (map user_id T))) (user_id r)),
       item_id := int (index_of (sorted_list_of_set (set (map item_id T))) (item_id r))\<rparr>"

definition recode :: "'a interaction_scheme list \<Rightarrow> 'a interaction_scheme list" where
  "recode T = map (recode_row T) T"

text \<open>
  For the worked inputs: a sort that leaves rows of equal timestamp in the order of the
  frame, an input row, and a row of the split.
\<close>

definition in_frame_order :: "'r list \<Rightarrow> nat \<Rightarrow> nat" where
  "in_frame_order df i = i"

definition row :: "int \<Rightarrow> int \<Rightarrow> int \<Rightarrow> int \<Rightarrow> interaction" where
  "row u i t c =
     \<lparr>item_id = i, user_id = u, rating = 4, timestamp = t, type_col = ''Drama'', type_id = c\<rparr>"

definition out_row ::
  "int \<Rightarrow> int \<Rightarrow> int \<Rightarrow> int \<Rightarrow> string \<Rightarrow> int \<Rightarrow> int \<Rightarrow> split_cols interaction_scheme" where
  "out_row u i t c s uo io =
     \<lparr>item_id = i, user_id = u, rating = 4, timestamp = t, type_col = ''Drama'', type_id = c,
      set_col = s, user_id_original = uo, item_id_original = io\<rparr>"

text \<open>
  Two frames of one user each, with distinct timestamps: ten interactions, and ninety.
\<close>

definition ten_interactions :: "interaction list" where
  "ten_interactions =
     [row 1 11 1 7, row 1 12 2 7, row 1 13 3 7, row 1 14 4 7, row 1 15 5 7,
      row 1 16 6 7, row 1 17 7 7, row 1 18 8 7, row 1 19 9 7, row 1 20 10 7]"

definition ninety_interactions :: "interaction list" where
  "ninety_interactions = map (\<lambda>t. row 1 t t 7) [1..90]"


section \<open>The join with the association table (provider-fairness notebook, step 1)\<close>

text \<open>
  \<^verbatim>\<open>data = pd.merge(data, gender_item_association, on='item_id')\<close>
  The default \<open>how\<close> is \<open>inner\<close>: one output row per pair of a row of \<open>data\<close> and a row of
  the association table with the same \<open>item_id\<close>, in the order of the rows of \<open>data\<close>; the
  columns of the right frame other than the key come after those of the left one.
\<close>

definition merge_row ::
  "'a interaction_scheme \<Rightarrow> share_cols item_row_scheme \<Rightarrow> 'a share_cols_scheme interaction_scheme" where
  "merge_row d a =
     \<lparr>item_id = item_id d, user_id = user_id d, rating = rating d, timestamp = timestamp d,
      type_col = type_col d, type_id = type_id d,
      \<dots> = \<lparr>minority = minority_share a, majority = majority_share a,
             \<dots> = interaction.more d\<rparr>\<rparr>"

definition pd_merge ::
  "'a interaction_scheme list \<Rightarrow> share_cols item_row_scheme list \<Rightarrow>
   'a share_cols_scheme interaction_scheme list" where
  "pd_merge data association =
     concat (map (\<lambda>d. map (merge_row d) (filter (\<lambda>a. item_id a = item_id d) association)) data)"

text \<open>The two share columns of a joined row, and the interaction it was joined from.\<close>

definition minority_of :: "'a share_cols_scheme interaction_scheme \<Rightarrow> float_cell" where
  "minority_of m = minority (interaction.more m)"

definition majority_of :: "'a share_cols_scheme interaction_scheme \<Rightarrow> float_cell" where
  "majority_of m = majority (interaction.more m)"

definition unmerge :: "'a share_cols_scheme interaction_scheme \<Rightarrow> 'a interaction_scheme" where
  "unmerge m =
     \<lparr>item_id = item_id m, user_id = user_id m, rating = rating m, timestamp = timestamp m,
      type_col = type_col m, type_id = type_id m, \<dots> = share_cols.more (interaction.more m)\<rparr>"


section \<open>The upsampling pipeline \<open>run_with_upsampling\<close> (provider-fairness notebook, step 3)\<close>

text \<open>
  A DataFrame is an object: \<open>train\<close> in the caller and \<open>train\<close> in the function are references,
  and an assignment to a column writes into the object both may name. The frames alive are a
  list, a reference is a position in it; a new frame goes to the end.
\<close>

definition new_frame :: "'r list \<Rightarrow> 'r list list \<Rightarrow> nat \<times> 'r list list" where
  "new_frame df frames = (length frames, frames @ [df])"

text \<open>
  \<^verbatim>\<open>if umode == 'real': train = real(train, 'minority', target=utarget)\<close>
  \<^verbatim>\<open>if umode == 'fake': train = fake(train, 'minority', items_w_min, target=utarget)\<close>
  \<^verbatim>\<open>if umode == 'fakebypop': train = fakeByPop(train, 'minority', items_w_min, target=utarget)\<close>
  \<^verbatim>\<open>train['rating'] = 1.0\<close>
  \<^verbatim>\<open>model = model_types[model_type](users, items, train, test, ...)\<close>
  The function returns the reference bound to \<open>train\<close> when the model is built, and the
  frames as the assignment leaves them. The notebook imports the three upsamplers from
  \<open>helpers/instances_upsampler\<close> and does not define them: they are parameters (primed,
  \<open>real\<close> being taken in HOL), each from the frames and a reference to a reference and the
  frames.
\<close>

definition run_with_upsampling_train ::
  "('a interaction_scheme list list \<Rightarrow> nat \<Rightarrow> string \<Rightarrow> rat \<Rightarrow>
      nat \<times> 'a interaction_scheme list list) \<Rightarrow>
   ('a interaction_scheme list list \<Rightarrow> nat \<Rightarrow> string \<Rightarrow> int list \<Rightarrow> rat \<Rightarrow>
      nat \<times> 'a interaction_scheme list list) \<Rightarrow>
   ('a interaction_scheme list list \<Rightarrow> nat \<Rightarrow> string \<Rightarrow> int list \<Rightarrow> rat \<Rightarrow>
      nat \<times> 'a interaction_scheme list list) \<Rightarrow>
   'a interaction_scheme list list \<Rightarrow> nat \<Rightarrow> string \<Rightarrow> rat \<Rightarrow> int list \<Rightarrow>
   nat \<times> 'a interaction_scheme list list" where
  "run_with_upsampling_train real' fake' fakeByPop' frames train umode utarget items_w_min =
     (let (train, frames) =
            (if umode = ''real'' then real' frames train ''minority'' utarget
             else (train, frames));
          (train, frames) =
            (if umode = ''fake'' then fake' frames train ''minority'' items_w_min utarget
             else (train, frames));
          (train, frames) =
            (if umode = ''fakebypop''
             then fakeByPop' frames train ''minority'' items_w_min utarget
             else (train, frames))
      in (train, frames[train := map (\<lambda>r. r\<lparr>rating := 1\<rparr>) (frames ! train)]))"

text \<open>
  Modelled from the spec: the upsamplers \<open>real\<close>, \<open>fake\<close> and \<open>fakeByPop\<close> of
  \<open>helpers/instances_upsampler\<close>, whose code the notebooks do not contain. The spec (4.2,
  and the invariants of 3): among interactions whose item is minority-associated
  (\<open>minority_share > 0\<close>) ``duplicate (replicate, not resample-with-noise) interaction rows
  according to these weights''; the output is ``original rows plus duplicates, each
  duplicate marked with rating = 1.0''; ``if current minority proportion already \<ge> target,
  return input unchanged'', the proportion being ``count(minority rows) / count(all rows)'';
  ``append-only transform, new copy''. How many duplicates a row gets is what the three
  modes differ in (true ratios, synthetic weights, popularity): it is the parameter
  \<open>copies\<close>, from the frame and the position of the row. The spec tells the minority rows by
  the share column, so the list of minority items the notebook passes to two of them is not
  read.
\<close>

definition share_column ::
  "string \<Rightarrow> 'a share_cols_scheme split_cols_scheme interaction_scheme \<Rightarrow> float_cell" where
  "share_column name r =
     (if name = ''minority'' then minority (split_cols.more (interaction.more r))
      else if name = ''majority'' then majority (split_cols.more (interaction.more r))
      else NaN)"

fun positive :: "float_cell \<Rightarrow> bool" where
  "positive NaN = False"
| "positive (Num x) = (0 < x)"

definition at_target ::
  "string \<Rightarrow> rat \<Rightarrow> 'a share_cols_scheme split_cols_scheme interaction_scheme list \<Rightarrow> bool" where
  "at_target name target df =
     (target * of_nat (length df) \<le>
      of_nat (length (filter (\<lambda>r. positive (share_column name r)) df)))"

definition duplicates ::
  "('a share_cols_scheme split_cols_scheme interaction_scheme list \<Rightarrow> nat \<Rightarrow> nat) \<Rightarrow> string \<Rightarrow>
   'a share_cols_scheme split_cols_scheme interaction_scheme list \<Rightarrow>
   'a share_cols_scheme split_cols_scheme interaction_scheme list" where
  "duplicates copies name df =
     concat (map (\<lambda>p. if positive (share_column name (snd p))
                       then replicate (copies df (fst p)) ((snd p)\<lparr>rating := 1\<rparr>) else [])
                 (enumerate 0 df))"

definition upsample ::
  "('a share_cols_scheme split_cols_scheme interaction_scheme list \<Rightarrow> nat \<Rightarrow> nat) \<Rightarrow>
   'a share_cols_scheme split_cols_scheme interaction_scheme list list \<Rightarrow> nat \<Rightarrow> string \<Rightarrow> rat \<Rightarrow>
   nat \<times> 'a share_cols_scheme split_cols_scheme interaction_scheme list list" where
  "upsample copies frames train name target =
     (let df = frames ! train
      in if at_target name target df then (train, frames)
         else new_frame (df @ duplicates copies name df) frames)"

definition real_upsampler ::
  "('a share_cols_scheme split_cols_scheme interaction_scheme list \<Rightarrow> nat \<Rightarrow> nat) \<Rightarrow>
   'a share_cols_scheme split_cols_scheme interaction_scheme list list \<Rightarrow> nat \<Rightarrow> string \<Rightarrow> rat \<Rightarrow>
   nat \<times> 'a share_cols_scheme split_cols_scheme interaction_scheme list list" where
  "real_upsampler copies frames train name target = upsample copies frames train name target"

definition fake_upsampler ::
  "('a share_cols_scheme split_cols_scheme interaction_scheme list \<Rightarrow> nat \<Rightarrow> nat) \<Rightarrow>
   'a share_cols_scheme split_cols_scheme interaction_scheme list list \<Rightarrow> nat \<Rightarrow> string \<Rightarrow>
   int list \<Rightarrow> rat \<Rightarrow>
   nat \<times> 'a share_cols_scheme split_cols_scheme interaction_scheme list list" where
  "fake_upsampler copies frames train name items_w_min target =
     upsample copies frames train name target"

definition fakeByPop_upsampler ::
  "('a share_cols_scheme split_cols_scheme interaction_scheme list \<Rightarrow> nat \<Rightarrow> nat) \<Rightarrow>
   'a share_cols_scheme split_cols_scheme interaction_scheme list list \<Rightarrow> nat \<Rightarrow> string \<Rightarrow>
   int list \<Rightarrow> rat \<Rightarrow>
   nat \<times> 'a share_cols_scheme split_cols_scheme interaction_scheme list list" where
  "fakeByPop_upsampler copies frames train name items_w_min target =
     upsample copies frames train name target"

text \<open>
  For the worked inputs: weights that give every minority row two duplicates, and a row of
  the train frame of the provider-fairness notebook with all its columns.
\<close>

definition two_copies :: "'r list \<Rightarrow> nat \<Rightarrow> nat" where
  "two_copies df i = 2"

definition train_row ::
  "int \<Rightarrow> int \<Rightarrow> rat \<Rightarrow> int \<Rightarrow> rat \<Rightarrow> share_cols split_cols_scheme interaction_scheme" where
  "train_row u i r t m =
     \<lparr>item_id = i, user_id = u, rating = r, timestamp = t, type_col = ''Drama'', type_id = 7,
      set_col = ''train'', user_id_original = u + 1, item_id_original = i + 1,
      minority = Num m, majority = Num (1 - m)\<rparr>"

definition four_rows :: "share_cols split_cols_scheme interaction_scheme list" where
  "four_rows = [train_row 0 3 5 10 1, train_row 0 4 3 20 0, train_row 1 5 4 30 0, train_row 1 6 2 40 0]"


section \<open>The life cycle of a recommender model\<close>

text \<open>
  Modelled from the spec: the class \<open>Model\<close> of \<open>models/model.py\<close> and its subclasses,
  whose code the notebooks do not contain; they only call \<open>train\<close>, \<open>predict\<close> and
  \<open>test\<close>, in that order (\<open>run_model\<close>). The spec gives the state machine
  \<open>Uninitialized \<rightarrow> Training \<rightarrow> Trained \<rightarrow> Predicted \<rightarrow> Evaluated\<close>:
  ``\<open>train()\<close> moves Uninitialized/Trained to Trained; \<open>predict()\<close> requires Trained,
  produces the relevance matrix, moves to Predicted; \<open>test()\<close> requires Predicted, computes
  metrics, moves to Evaluated. Calling \<open>predict()\<close> or \<open>test()\<close> out of order fails with a
  state-precondition error.'' A call is one step of a relation; \<open>Training\<close> is the state
  during \<open>train\<close> and is not observed between calls. What \<open>train\<close> does from \<open>Predicted\<close>
  or \<open>Evaluated\<close> the spec does not say, and the relation has no rule for it. The
  fitting of the embeddings, the scoring and the metrics are parameters.
\<close>

datatype phase = Uninitialized | Training | Trained | Predicted | Evaluated

datatype operation = Train | Predict | Test

datatype model_error = StatePrecondition

record ('e, 'm, 'b) model =
  state :: phase
  embeddings :: 'e
  predictions :: "'m option"
  metrics :: "'b option"

inductive call ::
  "('e \<Rightarrow> 'e) \<Rightarrow> ('e \<Rightarrow> 'm) \<Rightarrow> ('m \<Rightarrow> 'b) \<Rightarrow>
   ('e, 'm, 'b) model \<Rightarrow> operation \<Rightarrow> model_error + ('e, 'm, 'b) model \<Rightarrow> bool"
  for fit :: "'e \<Rightarrow> 'e" and score :: "'e \<Rightarrow> 'm" and evaluate :: "'m \<Rightarrow> 'b" where
  train_moves:
    "state m = Uninitialized \<or> state m = Trained \<Longrightarrow>
     call fit score evaluate m Train (Inr (m\<lparr>state := Trained, embeddings := fit (embeddings m)\<rparr>))"
| predict_moves:
    "state m = Trained \<Longrightarrow>
     call fit score evaluate m Predict
       (Inr (m\<lparr>state := Predicted, predictions := Some (score (embeddings m))\<rparr>))"
| predict_fails:
    "state m \<noteq> Trained \<Longrightarrow> call fit score evaluate m Predict (Inl StatePrecondition)"
| test_moves:
    "state m = Predicted \<Longrightarrow> predictions m = Some p \<Longrightarrow>
     call fit score evaluate m Test (Inr (m\<lparr>state := Evaluated, metrics := Some (evaluate p)\<rparr>))"
| test_fails:
    "state m \<noteq> Predicted \<Longrightarrow> call fit score evaluate m Test (Inl StatePrecondition)"

code_pred call .

definition fresh_model :: "'e \<Rightarrow> ('e, 'm, 'b) model" where
  "fresh_model e = \<lparr>state = Uninitialized, embeddings = e, predictions = None, metrics = None\<rparr>"

section \<open>The xQuad-style re-ranker\<close>

text \<open>
  Modelled from the spec: \<open>RankerXQuad.rerank\<close> of \<open>models/ranker_xquad.py\<close>, whose code
  the notebooks do not contain; the popularity notebook only calls it. The spec: ``produce a re-ranked top-\<open>k\<close> list for
  each user by greedy selection: at each position, select the remaining candidate item
  (from the original top-\<open>rmax\<close> pool) maximizing
  \<open>(1 - \<lambda>) * normalized_relevance + \<lambda> * diversity_term\<close>, where the diversity term
  rewards selecting from the under-represented category given what has already been
  placed''; ``re-ranking is deterministic''. Items are their dense ids; the normalized
  relevance of an item and the diversity term of a candidate given the list placed so far
  are parameters. The spec does not say which of several maximal candidates is taken: the
  scan keeps the earliest one in pool order.
\<close>

definition objective ::
  "rat \<Rightarrow> (int \<Rightarrow> rat) \<Rightarrow> (int list \<Rightarrow> int \<Rightarrow> rat) \<Rightarrow> int list \<Rightarrow> int \<Rightarrow> rat" where
  "objective lmbda normalized_relevance diversity_term placed c =
     (1 - lmbda) * normalized_relevance c + lmbda * diversity_term placed c"

fun maximizing :: "(int \<Rightarrow> rat) \<Rightarrow> int \<Rightarrow> int list \<Rightarrow> int" where
  "maximizing f best [] = best"
| "maximizing f best (c # cs) = maximizing f (if f best < f c then c else best) cs"

fun greedy ::
  "rat \<Rightarrow> (int \<Rightarrow> rat) \<Rightarrow> (int list \<Rightarrow> int \<Rightarrow> rat) \<Rightarrow> nat \<Rightarrow> int list \<Rightarrow> int list \<Rightarrow> int list" where
  "greedy lmbda nrel dterm 0 candidates placed = placed"
| "greedy lmbda nrel dterm (Suc k) [] placed = placed"
| "greedy lmbda nrel dterm (Suc k) (c # cs) placed =
     (let best = maximizing (objective lmbda nrel dterm placed) c cs
      in greedy lmbda nrel dterm k (remove1 best (c # cs)) (placed @ [best]))"

definition rerank ::
  "rat \<Rightarrow> nat \<Rightarrow> nat \<Rightarrow> (int \<Rightarrow> rat) \<Rightarrow> (int list \<Rightarrow> int \<Rightarrow> rat) \<Rightarrow> int list \<Rightarrow> int list" where
  "rerank lmbda k rmax nrel dterm ranking = greedy lmbda nrel dterm k (take rmax ranking) []"

text \<open>A worked input: four items, a min-max normalization of their scores, a bonus for item 9.\<close>

definition scores_example :: "int \<Rightarrow> rat" where
  "scores_example i = (if i = 7 then 3 else if i = 3 then 2 else if i = 9 then 2 else 1/2)"

definition min_max_example :: "rat \<Rightarrow> rat" where
  "min_max_example x = (x - 1/2) / (3 - 1/2)"

definition tail_bonus_example :: "int list \<Rightarrow> int \<Rightarrow> rat" where
  "tail_bonus_example placed c = (if c = 9 \<and> 9 \<notin> set placed then 1 else 0)"


section \<open>NDCG of the metrics engine\<close>

text \<open>
  Modelled from the spec: the NDCG of \<open>Model.test\<close> (\<open>models/model.py\<close>), whose code the
  notebooks do not contain. The spec: ``NDCG@k: discounted cumulative gain of the ranked list against the binary relevance
  of test items, normalized by ideal DCG; 0 when the user has no test items''. The discount
  of a position is a parameter (the spec does not fix it). The quotient is a float: a zero
  ideal DCG gives NaN, which is why the case of no test item is a case of its own.
\<close>

definition dcg :: "(nat \<Rightarrow> rat) \<Rightarrow> nat \<Rightarrow> int list \<Rightarrow> int list \<Rightarrow> rat" where
  "dcg discount k ranked test_items =
     (\<Sum>i \<leftarrow> [0..<min k (length ranked)].
        if ranked ! i \<in> set test_items then discount i else 0)"

definition idcg :: "(nat \<Rightarrow> rat) \<Rightarrow> nat \<Rightarrow> int list \<Rightarrow> rat" where
  "idcg discount k test_items =
     (\<Sum>i \<leftarrow> [0..<min k (length (remdups test_items))]. discount i)"

definition fdiv :: "rat \<Rightarrow> rat \<Rightarrow> float_cell" where
  "fdiv x y = (if y = 0 then NaN else Num (x / y))"

definition ndcg :: "(nat \<Rightarrow> rat) \<Rightarrow> nat \<Rightarrow> int list \<Rightarrow> int list \<Rightarrow> float_cell" where
  "ndcg discount k ranked test_items =
     (if test_items = [] then Num 0
      else fdiv (dcg discount k ranked test_items) (idcg discount k test_items))"


section \<open>Properties of the group representation\<close>

text \<open>
  C1. Every row of the association table keeps its place and its item; its
  \<open>minority\<close> is the group-1 fraction as it stands, or 1.0 when that fraction is NaN; its
  \<open>majority\<close> is the group-2 fraction as it stands, or 0.0 when NaN. Hence the two shares
  need not add up to 1: a row whose group-1 fraction is missing and whose group-2 fraction is
  1.0 gets the sum 2.
\<close>

theorem gender_item_association_shares:
  "length (gender_item_association table) = length table \<and>
   (\<forall>i < length table.
      item_id (gender_item_association table ! i) = item_id (table ! i) \<and>
      minority_share (gender_item_association table ! i) =
        (case gender_1 (table ! i) of NaN \<Rightarrow> Num 1 | Num x \<Rightarrow> Num x) \<and>
      majority_share (gender_item_association table ! i) =
        (case gender_2 (table ! i) of NaN \<Rightarrow> Num 0 | Num x \<Rightarrow> Num x)) \<and>
   (\<exists>t. \<exists>a \<in> set (gender_item_association t).
      fadd (minority_share a) (majority_share a) \<noteq> Num 1)"
proof (intro conjI allI impI)
  show "length (gender_item_association table) = length table"
    by (simp add: gender_item_association_def)
next
  fix i assume i: "i < length table"
  then have row: "gender_item_association table ! i = association_row (table ! i)"
    by (simp add: gender_item_association_def)
  show "item_id (gender_item_association table ! i) = item_id (table ! i)"
    by (simp add: row association_row_def)
  show "minority_share (gender_item_association table ! i) =
        (case gender_1 (table ! i) of NaN \<Rightarrow> Num 1 | Num x \<Rightarrow> Num x)"
    by (cases "gender_1 (table ! i)")
       (simp_all add: row association_row_def minority_share_def minority_lambda_def)
  show "majority_share (gender_item_association table ! i) =
        (case gender_2 (table ! i) of NaN \<Rightarrow> Num 0 | Num x \<Rightarrow> Num x)"
    by (cases "gender_2 (table ! i)")
       (simp_all add: row association_row_def majority_share_def majority_lambda_def)
next
  let ?t = "[\<lparr>item_id = 7, gender_1 = NaN, gender_2 = Num 1\<rparr>]"
  have "\<exists>a \<in> set (gender_item_association ?t).
          fadd (minority_share a) (majority_share a) \<noteq> Num 1"
    by (simp add: gender_item_association_def association_row_def minority_share_def
        majority_share_def minority_lambda_def majority_lambda_def)
  then show "\<exists>t. \<exists>a \<in> set (gender_item_association t).
      fadd (minority_share a) (majority_share a) \<noteq> Num 1" ..
qed

theorem gender_item_association_shares_witness:
  "minority_share (gender_item_association
      [\<lparr>item_id = 3, gender_1 = Num (1/2), gender_2 = Num (1/2)\<rparr>,
       \<lparr>item_id = 7, gender_1 = NaN, gender_2 = NaN\<rparr>] ! 1) = Num 1 \<and>
   majority_share (gender_item_association
      [\<lparr>item_id = 3, gender_1 = Num (1/2), gender_2 = Num (1/2)\<rparr>,
       \<lparr>item_id = 7, gender_1 = NaN, gender_2 = NaN\<rparr>] ! 1) = Num 0 \<and>
   minority_share (gender_item_association
      [\<lparr>item_id = 3, gender_1 = Num (1/2), gender_2 = Num (1/2)\<rparr>,
       \<lparr>item_id = 7, gender_1 = NaN, gender_2 = NaN\<rparr>] ! 0) = Num (1/2)"
  using gender_item_association_shares
    [of "[\<lparr>item_id = 3, gender_1 = Num (1/2), gender_2 = Num (1/2)\<rparr>,
          \<lparr>item_id = 7, gender_1 = NaN, gender_2 = NaN\<rparr>]"]
  by simp

section \<open>Properties of the splitter\<close>

lemma length_sort_values [simp]: "length (sort_values ties df) = length df"
  by (simp add: sort_values_def)

lemma mset_sort_values [simp]: "mset (sort_values ties df) = mset df"
proof -
  have "mset (map snd (sort_key (\<lambda>p. ties df (fst p)) (enumerate 0 df))) =
        mset (map snd (enumerate 0 df))"
    by (simp only: mset_map mset_sort)
  then have "mset (map snd (sort_key (\<lambda>p. ties df (fst p)) (enumerate 0 df))) = mset df"
    by (simp only: map_snd_enumerate)
  then show ?thesis
    by (simp add: sort_values_def)
qed

lemma set_sort_values [simp]: "set (sort_values ties df) = set df"
  by (metis mset_sort_values set_mset_mset)

lemma sorted_sort_values [simp]: "sorted (map timestamp (sort_values ties df))"
  by (simp add: sort_values_def)

lemma foldl_split_user:
  "foldl (split_user ties split m) (tr, te) groups =
     (tr @ map (\<lambda>g. train_part ties split (snd g)) (filter (kept m) groups),
      te @ map (\<lambda>g. test_part ties split (snd g)) (filter (kept m) groups))"
  by (induction groups arbitrary: tr te)
     (simp_all add: split_user_def Let_def kept_def train_part_def test_part_def
        n_rating_test_def)

lemma index_of_less: "v \<in> set cs \<Longrightarrow> index_of cs v < length cs"
  by (induction cs) auto

lemma index_of_nth: "v \<in> set cs \<Longrightarrow> cs ! index_of cs v = v"
  by (induction cs) auto

lemma index_of_inj: "v \<in> set cs \<Longrightarrow> w \<in> set cs \<Longrightarrow> index_of cs v = index_of cs w \<Longrightarrow> v = w"
  by (metis index_of_nth)

lemma index_of_surj: "distinct cs \<Longrightarrow> i < length cs \<Longrightarrow> index_of cs (cs ! i) = i"
  by (induction cs arbitrary: i) (auto simp: nth_Cons split: nat.splits)

lemma pd_concat_map:
  "pd_concat (map f gs) = (if gs = [] then Inl ValueError else Inr (concat (map f gs)))"
  by (cases gs) simp_all

lemma map2_same: "map2 f xs (map g xs) = map (\<lambda>x. f x (g x)) xs"
  by (induction xs) simp_all

lemma groupby_user_Nil: "groupby_user I = [] \<longleftrightarrow> I = []"
  by (simp add: groupby_user_def)

lemma recode_steps:
  "map2 (\<lambda>r c. r\<lparr>item_id := c\<rparr>) (map2 (\<lambda>r c. r\<lparr>user_id := c\<rparr>) T (cat_codes (map user_id T)))
        (cat_codes (map item_id (map2 (\<lambda>r c. r\<lparr>user_id := c\<rparr>) T (cat_codes (map user_id T)))))
   = recode T"
proof -
  have 1: "map2 (\<lambda>r c. r\<lparr>user_id := c\<rparr>) T (cat_codes (map user_id T)) =
        map (\<lambda>r. r\<lparr>user_id := int (index_of (sorted_list_of_set (set (map user_id T))) (user_id r))\<rparr>) T"
    (is "?t1 = _")
    unfolding cat_codes_def Let_def map_map o_def by (rule map2_same)
  have 2: "map item_id ?t1 = map item_id T"
    unfolding 1 by simp
  have 3: "cat_codes (map item_id ?t1) =
      map (\<lambda>r. int (index_of (sorted_list_of_set (set (map item_id T))) (item_id r))) ?t1"
    unfolding 2 unfolding cat_codes_def Let_def 2[symmetric] map_map o_def ..
  show ?thesis
    unfolding 3 map2_same unfolding 1 recode_def recode_row_def by simp
qed

lemma user_timestamp_eq:
  "user_timestamp ties I split m =
     (if I = [] then Inl UnboundLocalError
      else if filter (kept m) (groupby_user I) = [] then Inl ValueError
      else Inr (recode (marked ties split m I)))"
proof -
  have sets: "foldl (split_user ties split m) ([], []) (groupby_user I) =
     (map (\<lambda>g. train_part ties split (snd g)) (filter (kept m) (groupby_user I)),
      map (\<lambda>g. test_part ties split (snd g)) (filter (kept m) (groupby_user I)))"
    by (simp add: foldl_split_user)
  show ?thesis
    unfolding user_timestamp_def Let_def sets fst_conv snd_conv pd_concat_map groupby_user_Nil
      recode_steps marked_def
    by simp
qed

lemma recode_map: "recode T = map (recode_row T) T"
  by (simp add: recode_def)

lemma unmark_mark [simp]: "unmark (mark s r) = r"
  by (simp add: unmark_def mark_def item_original_def user_original_def)

lemma unmark_recode_row [simp]: "unmark (recode_row T r) = unmark r"
  by (simp add: unmark_def recode_row_def item_original_def user_original_def)

lemma set_of_mark [simp]: "set_of (mark s r) = s"
  by (simp add: set_of_def mark_def)

lemma user_original_mark [simp]: "user_original (mark s r) = user_id r"
  by (simp add: user_original_def mark_def)

lemma item_original_mark [simp]: "item_original (mark s r) = item_id r"
  by (simp add: item_original_def mark_def)

lemma set_of_recode_row [simp]: "set_of (recode_row T r) = set_of r"
  by (simp add: set_of_def recode_row_def)

lemma user_original_recode_row [simp]: "user_original (recode_row T r) = user_original r"
  by (simp add: user_original_def recode_row_def)

lemma item_original_recode_row [simp]: "item_original (recode_row T r) = item_original r"
  by (simp add: item_original_def recode_row_def)

lemma kept_groupby:
  "filter (kept m) (groupby_user I) =
     map (\<lambda>u. (u, user_rows u I))
       (filter (\<lambda>u. m \<le> int (length (user_rows u I))) (sorted_list_of_set (set (map user_id I))))"
  by (simp add: groupby_user_def filter_map o_def kept_def user_rows_def not_less)

lemma kept_nonempty:
  "filter (kept m) (groupby_user I) \<noteq> [] \<longleftrightarrow>
     (\<exists>u \<in> user_id ` set I. m \<le> int (length (user_rows u I)))"
  unfolding kept_groupby by (auto simp: filter_empty_conv)

lemma set_head: "set (head n df) \<subseteq> set df"
  by (auto simp: head_def dest: in_set_takeD)

lemma set_tail: "set (tail n df) \<subseteq> set df"
  by (auto simp: tail_def dest: in_set_dropD)

lemma set_train_part: "set (train_part ties split df) \<subseteq> set df"
  using set_head[of _ "sort_values ties df"] by (simp add: train_part_def)

lemma set_test_part: "set (test_part ties split df) \<subseteq> set df"
  using set_tail[of _ "sort_values ties df"] by (simp add: test_part_def)

lemma user_timestamp_Inr:
  "user_timestamp ties I split m = Inr tt \<Longrightarrow> tt = recode (marked ties split m I)"
  by (simp add: user_timestamp_eq split: if_splits)

text \<open>
  Conversely, every sorted permutation of a frame is \<open>sort_values ties\<close> of it for some
  \<open>ties\<close>: what is proved for every \<open>ties\<close> holds for whatever order the sort leaves.
\<close>

lemma index_list:
  assumes "finite S" "image_mset (nth df) (mset_set S) = mset ys"
  shows "\<exists>ps. distinct ps \<and> set ps = S \<and> map (nth df) ps = ys"
  using assms
proof (induction ys arbitrary: S)
  case Nil
  then have "S = {}"
    by (simp add: mset_set_empty_iff)
  then show ?case by simp
next
  case (Cons y ys)
  have "y \<in># image_mset (nth df) (mset_set S)"
    unfolding Cons.prems(2) by simp
  then obtain i where i: "i \<in> S" "df ! i = y"
    using Cons.prems(1) by auto
  have "mset_set S = add_mset i (mset_set (S - {i}))"
    using i(1) Cons.prems(1) by (simp add: mset_set.remove)
  then have "image_mset (nth df) (mset_set (S - {i})) = mset ys"
    using Cons.prems(2) i(2) by simp
  with Cons.IH[of "S - {i}"] Cons.prems(1)
  obtain ps where ps: "distinct ps" "set ps = S - {i}" "map (nth df) ps = ys"
    by auto
  show ?case
    using ps i by (intro exI[of _ "i # ps"]) auto
qed

lemma image_nth_lessThan: "image_mset (nth df) (mset_set {..<length df}) = mset df"
proof -
  have "image_mset (nth df) (mset_set {..<length df}) = image_mset (nth df) (mset [0..<length df])"
    by (simp only: mset_upt lessThan_atLeast0)
  also have "\<dots> = mset (map (nth df) [0..<length df])"
    by (simp only: mset_map)
  also have "\<dots> = mset df"
    by (simp only: map_nth)
  finally show ?thesis .
qed

lemma sort_values_any:
  assumes perm: "mset ys = mset df" and srt: "sorted (map timestamp ys)"
  shows "\<exists>ties. sort_values ties df = ys"
proof -
  obtain ps where ps: "distinct ps" "set ps = {..<length df}" "map (nth df) ps = ys"
    using index_list[of "{..<length df}" df ys] perm image_nth_lessThan[of df] by auto
  define rank where "rank = (\<lambda>i. the (map_of (zip ps [0..<length ps]) i))"
  have rank: "map rank ps = [0..<length ps]"
    by (rule nth_equalityI) (simp_all add: rank_def map_of_zip_nth ps(1))
  define f where "f = (\<lambda>p :: nat \<times> 'a interaction_scheme. rank (fst p))"
  define xs where "xs = sort_key f (enumerate 0 df)"
  define zs where "zs = map (\<lambda>i. (i, df ! i)) ps"
  have fz: "map f zs = [0..<length ps]"
    using rank by (simp add: zs_def f_def comp_def)
  have sets: "set xs = set zs"
  proof -
    have "set xs = set (enumerate 0 df)" by (simp add: xs_def)
    also have "\<dots> = (\<lambda>i. (i, df ! i)) ` {..<length df}"
      by (auto simp: in_set_enumerate_eq)
    also have "\<dots> = set zs" by (simp add: zs_def ps(2))
    finally show ?thesis .
  qed
  have len: "length xs = length zs"
  proof -
    have "length ps = card (set ps)" using ps(1) by (simp add: distinct_card)
    then show ?thesis by (simp add: xs_def zs_def ps(2))
  qed
  have dz: "distinct zs"
    using fz by (metis distinct_map distinct_upt)
  have dx: "distinct xs"
    by (simp add: xs_def distinct_enumerate)
  have inj: "inj_on f (set zs)"
    using fz by (metis distinct_map distinct_upt)
  have "xs = zs"
  proof (rule map_sorted_distinct_set_unique[of f])
    show "inj_on f (set xs \<union> set zs)"
      unfolding sets using inj by simp
    show "sorted (map f xs)" by (simp add: xs_def)
    show "distinct (map f xs)"
      using dx inj sets by (simp add: distinct_map)
    show "sorted (map f zs)" unfolding fz by simp
    show "distinct (map f zs)" unfolding fz by simp
    show "set xs = set zs" by (rule sets)
  qed
  then have "map snd xs = ys"
    using ps(3) by (simp add: zs_def comp_def)
  then have "sort_values (\<lambda>_. rank) df = ys"
    unfolding sort_values_def xs_def f_def using srt by (simp add: sort_key_id_if_sorted)
  then show ?thesis by (rule exI[of _ "\<lambda>_. rank"])
qed

text \<open>
  Where the timestamps of every user are distinct, the sort has no choice and the split
  does not depend on \<open>ties\<close>.
\<close>

lemma sort_values_distinct:
  assumes "distinct (map timestamp df)"
  shows "sort_values ties df = sort_key timestamp df"
proof (rule map_sorted_distinct_set_unique[of timestamp])
  show "inj_on timestamp (set (sort_values ties df) \<union> set (sort_key timestamp df))"
    using assms by (simp add: distinct_map)
  have "mset (map timestamp (sort_values ties df)) = mset (map timestamp df)"
    by (simp only: mset_map mset_sort_values)
  then show "distinct (map timestamp (sort_values ties df))"
    using assms by (metis mset_eq_imp_distinct_iff)
  show "distinct (map timestamp (sort_key timestamp df))"
    using assms by (metis distinct_map distinct_sort set_sort)
qed simp_all

lemma user_timestamp_ties:
  assumes "list_all (\<lambda>g. distinct (map timestamp (snd g))) (groupby_user I)"
  shows "user_timestamp ties I split m = user_timestamp in_frame_order I split m"
proof -
  have sv: "sort_values ties (snd g) = sort_values in_frame_order (snd g)"
    if "g \<in> set (groupby_user I)" for g
    using assms that by (simp add: list_all_iff sort_values_distinct)
  have "map (\<lambda>g. train_part ties split (snd g)) (filter (kept m) (groupby_user I)) =
        map (\<lambda>g. train_part in_frame_order split (snd g)) (filter (kept m) (groupby_user I))"
    by (rule map_cong) (simp_all add: train_part_def sv)
  moreover have "map (\<lambda>g. test_part ties split (snd g)) (filter (kept m) (groupby_user I)) =
        map (\<lambda>g. test_part in_frame_order split (snd g)) (filter (kept m) (groupby_user I))"
    by (rule map_cong) (simp_all add: test_part_def sv)
  ultimately have "marked ties split m I = marked in_frame_order split m I"
    unfolding marked_def by (simp only:)
  then show ?thesis
    by (simp add: user_timestamp_eq)
qed

lemma ten_interactions_split:
  "user_timestamp ties ten_interactions (fl (4/5)) 10 =
     Inr [out_row 0 0 1 7 ''train'' 1 11, out_row 0 1 2 7 ''train'' 1 12,
          out_row 0 2 3 7 ''train'' 1 13, out_row 0 3 4 7 ''train'' 1 14,
          out_row 0 4 5 7 ''train'' 1 15, out_row 0 5 6 7 ''train'' 1 16,
          out_row 0 6 7 7 ''train'' 1 17, out_row 0 7 8 7 ''train'' 1 18,
          out_row 0 8 9 7 ''train'' 1 19, out_row 0 9 10 7 ''test'' 1 20]"
proof -
  have "list_all (\<lambda>g. distinct (map timestamp (snd g))) (groupby_user ten_interactions)"
    by code_simp
  then have "user_timestamp ties ten_interactions (fl (4/5)) 10 =
      user_timestamp in_frame_order ten_interactions (fl (4/5)) 10"
    by (rule user_timestamp_ties)
  also have "\<dots> =
     Inr [out_row 0 0 1 7 ''train'' 1 11, out_row 0 1 2 7 ''train'' 1 12,
          out_row 0 2 3 7 ''train'' 1 13, out_row 0 3 4 7 ''train'' 1 14,
          out_row 0 4 5 7 ''train'' 1 15, out_row 0 5 6 7 ''train'' 1 16,
          out_row 0 6 7 7 ''train'' 1 17, out_row 0 7 8 7 ''train'' 1 18,
          out_row 0 8 9 7 ''train'' 1 19, out_row 0 9 10 7 ''test'' 1 20]"
    by code_simp
  finally show ?thesis .
qed

lemma ninety_interactions_split:
  "user_timestamp ties ninety_interactions (fl (3/10)) 10 =
     Inr (map (\<lambda>t. out_row 0 (t - 1) t 7 ''train'' 1 t) [1..28] @
          map (\<lambda>t. out_row 0 (t - 1) t 7 ''test'' 1 t) [29..90])"
proof -
  have "list_all (\<lambda>g. distinct (map timestamp (snd g))) (groupby_user ninety_interactions)"
    by code_simp
  then have "user_timestamp ties ninety_interactions (fl (3/10)) 10 =
      user_timestamp in_frame_order ninety_interactions (fl (3/10)) 10"
    by (rule user_timestamp_ties)
  also have "\<dots> = Inr (map (\<lambda>t. out_row 0 (t - 1) t 7 ''train'' 1 t) [1..28] @
          map (\<lambda>t. out_row 0 (t - 1) t 7 ''test'' 1 t) [29..90])"
    by code_simp
  finally show ?thesis .
qed

text \<open>
  C3. The number of test rows of a kept user is not always \<open>\<lfloor>n * (1 - split)\<rfloor>\<close>: the product
  is a float, rounded before \<open>int()\<close> truncates it. With the settings of the notebooks
  (\<open>train_ratio = 0.80\<close>, \<open>min_train_samples = 8\<close>, \<open>min_test_samples = 2\<close>, the latter
  described as the ``minimum number of test samples for a user to be included'') a user
  with ten interactions is kept and gets one test row and nine train rows, where
  \<open>\<lfloor>10 * (1 - 0.8)\<rfloor> = 2\<close>:
  \<open>1.0 - 0.8\<close> is \<open>0.19999999999999996\<close> and ten times that is \<open>1.9999999999999996\<close>.
  With \<open>split = 0.3\<close> a user with ninety interactions gets 62 test rows and 28 train rows,
  where \<open>\<lfloor>90 * (1 - split)\<rfloor> = 63\<close> whether \<open>split\<close> is read as \<open>3/10\<close> or as the float nearest
  to it. In both splits the train rows are the earliest and the test rows the most recent,
  and every interaction is in exactly one of the two sets, whatever the sort does with
  ties (there are none).
\<close>

theorem user_timestamp_test_count:
  "user_timestamp ties ten_interactions (fl (4/5)) 10 =
     Inr [out_row 0 0 1 7 ''train'' 1 11, out_row 0 1 2 7 ''train'' 1 12,
          out_row 0 2 3 7 ''train'' 1 13, out_row 0 3 4 7 ''train'' 1 14,
          out_row 0 4 5 7 ''train'' 1 15, out_row 0 5 6 7 ''train'' 1 16,
          out_row 0 6 7 7 ''train'' 1 17, out_row 0 7 8 7 ''train'' 1 18,
          out_row 0 8 9 7 ''train'' 1 19, out_row 0 9 10 7 ''test'' 1 20] \<and>
   fl (4/5) = 3602879701896397 / 4503599627370496 \<and>
   n_rating_test 10 (fl (4/5)) = 1 \<and>
   \<lfloor>(10 :: rat) * (1 - 4/5)\<rfloor> = 2 \<and>
   user_timestamp ties ninety_interactions (fl (3/10)) 10 =
     Inr (map (\<lambda>t. out_row 0 (t - 1) t 7 ''train'' 1 t) [1..28] @
          map (\<lambda>t. out_row 0 (t - 1) t 7 ''test'' 1 t) [29..90]) \<and>
   n_rating_test 90 (fl (3/10)) = 62 \<and>
   \<lfloor>(90 :: rat) * (1 - 3/10)\<rfloor> = 63 \<and>
   \<lfloor>(90 :: rat) * (1 - fl (3/10))\<rfloor> = 63"
proof -
  have f: "fl (4/5) = 3602879701896397 / 4503599627370496"
    by code_simp
  have k10: "n_rating_test 10 (fl (4/5)) = 1"
    by code_simp
  have c10: "\<lfloor>(10 :: rat) * (1 - 4/5)\<rfloor> = 2"
    by simp
  have k90: "n_rating_test 90 (fl (3/10)) = 62"
    by code_simp
  have c90: "\<lfloor>(90 :: rat) * (1 - 3/10)\<rfloor> = 63"
    by simp
  have e90: "\<lfloor>(90 :: rat) * (1 - fl (3/10))\<rfloor> = 63"
    by code_simp
  from ten_interactions_split f k10 c10 ninety_interactions_split k90 c90 e90
  show ?thesis by (intro conjI)
qed

text \<open>A worked input: user 5 has four interactions, user 9 has one.\<close>

lemma worked_split: "user_timestamp in_frame_order [row 5 20 40 7, row 9 10 15 3, row 5 10 10 3, row 5 30 30 7, row 5 40 20 3] (1/2) 2 =
   Inr [out_row 0 0 10 3 ''train'' 5 10, out_row 0 3 20 3 ''train'' 5 40,
        out_row 0 2 30 7 ''test'' 5 30, out_row 0 1 40 7 ''test'' 5 20]"
  by code_simp

text \<open>
  C10. \<open>user_timestamp\<close> returns a split exactly when some user of the table has at least
  \<open>min_samples\<close> interactions. On the empty table it raises (the loop variable is unbound
  at the \<open>print\<close> after the loop); on a table whose users all have fewer than
  \<open>min_samples\<close> interactions it raises too (\<open>pd.concat\<close> of no frame).
\<close>

theorem user_timestamp_raises:
  "(interactions = [] \<longrightarrow> user_timestamp ties interactions split min_samples = Inl UnboundLocalError) \<and>
   (interactions \<noteq> [] \<and>
    (\<forall>u \<in> user_id ` set interactions. int (length (user_rows u interactions)) < min_samples) \<longrightarrow>
      user_timestamp ties interactions split min_samples = Inl ValueError) \<and>
   ((\<exists>traintest. user_timestamp ties interactions split min_samples = Inr traintest) \<longleftrightarrow>
    (\<exists>u \<in> user_id ` set interactions. min_samples \<le> int (length (user_rows u interactions))))"
proof (intro conjI impI)
  assume "interactions = []"
  then show "user_timestamp ties interactions split min_samples = Inl UnboundLocalError"
    by (simp add: user_timestamp_eq)
next
  assume a: "interactions \<noteq> [] \<and>
    (\<forall>u \<in> user_id ` set interactions. int (length (user_rows u interactions)) < min_samples)"
  then have "filter (kept min_samples) (groupby_user interactions) = []"
    using kept_nonempty[of min_samples interactions] by fastforce
  with a show "user_timestamp ties interactions split min_samples = Inl ValueError"
    by (simp add: user_timestamp_eq)
next
  show "(\<exists>traintest. user_timestamp ties interactions split min_samples = Inr traintest) \<longleftrightarrow>
    (\<exists>u \<in> user_id ` set interactions. min_samples \<le> int (length (user_rows u interactions)))"
  proof (cases "interactions = []")
    case True
    then show ?thesis by (simp add: user_timestamp_eq)
  next
    case False
    then show ?thesis
      unfolding user_timestamp_eq kept_nonempty[symmetric] by simp
  qed
qed

theorem user_timestamp_raises_witness:
  "user_timestamp in_frame_order ([] :: interaction list) (1/2) 2 = Inl UnboundLocalError \<and>
   user_timestamp in_frame_order [row 9 10 15 3] (1/2) 2 = Inl ValueError \<and>
   (\<exists>traintest. user_timestamp in_frame_order [row 5 20 40 7, row 5 10 10 3] (1/2) 2 = Inr traintest)"
  using user_timestamp_raises[of "[] :: interaction list" in_frame_order "1/2" 2]
    user_timestamp_raises[of "[row 9 10 15 3]" in_frame_order "1/2" 2]
    user_timestamp_raises[of "[row 5 20 40 7, row 5 10 10 3]" in_frame_order "1/2" 2]
  by (simp add: user_rows_def row_def)

lemma index_of_sorted_card:
  assumes "sorted cs" "distinct cs" "v \<in> set cs"
  shows "index_of cs v = card {x \<in> set cs. x < v}"
  using assms
proof (induction cs)
  case Nil
  then show ?case by simp
next
  case (Cons c cs)
  show ?case
  proof (cases "c = v")
    case True
    then have "{x \<in> set (c # cs). x < v} = {}"
      using Cons.prems by auto
    then show ?thesis using True by simp
  next
    case False
    then have v: "v \<in> set cs" and cv: "c < v"
      using Cons.prems by auto
    have "{x \<in> set (c # cs). x < v} = insert c {x \<in> set cs. x < v}"
      using cv by auto
    moreover have "c \<notin> {x \<in> set cs. x < v}"
      using Cons.prems by auto
    ultimately have "card {x \<in> set (c # cs). x < v} = Suc (card {x \<in> set cs. x < v})"
      by simp
    then show ?thesis
      using False Cons.IH v Cons.prems by simp
  qed
qed

lemma code_card:
  assumes "finite S" "v \<in> S"
  shows "index_of (sorted_list_of_set S) v = card {x \<in> S. x < v}"
  using index_of_sorted_card[of "sorted_list_of_set S" v] assms by simp

lemma code_less:
  assumes "finite S" "v \<in> S"
  shows "index_of (sorted_list_of_set S) v < card S"
  using index_of_less[of v "sorted_list_of_set S"] assms by simp

lemma code_inj:
  assumes "finite S" "v \<in> S" "w \<in> S"
    "index_of (sorted_list_of_set S) v = index_of (sorted_list_of_set S) w"
  shows "v = w"
  using index_of_inj[of v "sorted_list_of_set S" w] assms by simp

lemma code_image:
  assumes "finite S"
  shows "(\<lambda>v. index_of (sorted_list_of_set S) v) ` S = {0..<card S}"
proof (intro equalityI subsetI)
  fix i assume "i \<in> (\<lambda>v. index_of (sorted_list_of_set S) v) ` S"
  then show "i \<in> {0..<card S}" using code_less[OF assms] by auto
next
  fix i assume "i \<in> {0..<card S}"
  then have i: "i < length (sorted_list_of_set S)" by simp
  then have "sorted_list_of_set S ! i \<in> S"
    using assms nth_mem[OF i] by simp
  moreover have "index_of (sorted_list_of_set S) (sorted_list_of_set S ! i) = i"
    using i by (intro index_of_surj) simp_all
  ultimately show "i \<in> (\<lambda>v. index_of (sorted_list_of_set S) v) ` S"
    by (metis image_eqI)
qed

lemma marked_rows:
  assumes "r \<in> set (marked ties split m I)"
  shows "\<exists>s x. r = mark s x \<and> (s = ''train'' \<or> s = ''test'') \<and> x \<in> set I"
proof -
  have grp: "\<And>g. g \<in> set (groupby_user I) \<Longrightarrow> set (snd g) \<subseteq> set I"
    by (auto simp: groupby_user_def)
  from assms consider
    (tr) g x where "g \<in> set (groupby_user I)" "x \<in> set (train_part ties split (snd g))" "r = mark ''train'' x"
    | (te) g x where "g \<in> set (groupby_user I)" "x \<in> set (test_part ties split (snd g))" "r = mark ''test'' x"
    by (auto simp: marked_def)
  then show ?thesis
  proof cases
    case tr
    then have "x \<in> set I" using grp set_train_part by blast
    with tr show ?thesis by blast
  next
    case te
    then have "x \<in> set I" using grp set_test_part by blast
    with te show ?thesis by blast
  qed
qed

lemma marked_ids:
  assumes "r \<in> set (marked ties split m I)"
  shows "user_id r = user_original r" and "item_id r = item_original r"
  using marked_rows[OF assms] by (auto simp: mark_def user_original_def item_original_def)

lemma user_id_recode_row:
  "user_id (recode_row T r) = int (index_of (sorted_list_of_set (set (map user_id T))) (user_id r))"
  by (simp add: recode_row_def)

lemma item_id_recode_row:
  "item_id (recode_row T r) = int (index_of (sorted_list_of_set (set (map item_id T))) (item_id r))"
  by (simp add: recode_row_def)

lemma originals_recode:
  "user_original ` set (recode T) = user_original ` set T"
  "item_original ` set (recode T) = item_original ` set T"
  by (simp_all add: recode_map image_image)

lemma marked_columns:
  "set (map user_id (marked ties split m I)) = user_original ` set (marked ties split m I)"
  "set (map item_id (marked ties split m I)) = item_original ` set (marked ties split m I)"
  using marked_ids[of _ ties split m I] by (auto simp: image_iff)

text \<open>
  C6. In the frame \<open>user_timestamp\<close> returns (the one the notebook writes to the csv of the
  split), every row has \<open>set\<close> equal to \<open>train\<close> or \<open>test\<close>; its original-id columns
  are the ids of an input interaction, which is the row with those ids put back; its
  \<open>user_id\<close> is the rank of its original user id among the \<open>|U|\<close> distinct original
  user ids of the split, hence in \<open>[0, |U|)\<close>, and likewise for \<open>item_id\<close> and \<open>|I|\<close>.
  Two rows, train or test, have the same code exactly when they have the same original id,
  and the codes used are all of \<open>0 .. |U| - 1\<close> and \<open>0 .. |I| - 1\<close>.
\<close>

theorem user_timestamp_codes:
  assumes ret: "user_timestamp ties interactions split min_samples = Inr traintest"
  shows "(\<forall>r \<in> set traintest.
            (set_of r = ''train'' \<or> set_of r = ''test'') \<and>
            unmark r \<in> set interactions \<and>
            user_id r = int (card {u \<in> user_original ` set traintest. u < user_original r}) \<and>
            item_id r = int (card {i \<in> item_original ` set traintest. i < item_original r}) \<and>
            0 \<le> user_id r \<and> user_id r < int (card (user_original ` set traintest)) \<and>
            0 \<le> item_id r \<and> item_id r < int (card (item_original ` set traintest))) \<and>
         (\<forall>r \<in> set traintest. \<forall>r' \<in> set traintest.
            (user_id r = user_id r' \<longleftrightarrow> user_original r = user_original r') \<and>
            (item_id r = item_id r' \<longleftrightarrow> item_original r = item_original r')) \<and>
         user_id ` set traintest = {0..<int (card (user_original ` set traintest))} \<and>
         item_id ` set traintest = {0..<int (card (item_original ` set traintest))}"
proof -
  let ?T = "marked ties split min_samples interactions"
  let ?U = "user_original ` set traintest"
  let ?I = "item_original ` set traintest"
  note tt = user_timestamp_Inr[OF ret]
  have U: "set (map user_id ?T) = ?U" and I: "set (map item_id ?T) = ?I"
    unfolding tt originals_recode by (rule marked_columns)+
  have finU: "finite ?U" and finI: "finite ?I" by simp_all
  have row: "\<And>r. r \<in> set traintest \<Longrightarrow>
      \<exists>r0 \<in> set ?T. r = recode_row ?T r0"
    unfolding tt recode_map by auto
  have ucode: "user_id r = int (index_of (sorted_list_of_set ?U) (user_original r))"
    and icode: "item_id r = int (index_of (sorted_list_of_set ?I) (item_original r))"
    and uin: "user_original r \<in> ?U" and iin: "item_original r \<in> ?I"
    and setof: "set_of r = ''train'' \<or> set_of r = ''test''"
    and orig: "unmark r \<in> set interactions"
    if "r \<in> set traintest" for r
  proof -
    from row[OF that] obtain r0 where r0: "r0 \<in> set ?T" "r = recode_row ?T r0" by blast
    show "user_id r = int (index_of (sorted_list_of_set ?U) (user_original r))"
      unfolding r0(2) user_id_recode_row U using marked_ids(1)[OF r0(1)] by simp
    show "item_id r = int (index_of (sorted_list_of_set ?I) (item_original r))"
      unfolding r0(2) item_id_recode_row I using marked_ids(2)[OF r0(1)] by simp
    show "user_original r \<in> ?U" "item_original r \<in> ?I" using that by simp_all
    from marked_rows[OF r0(1)] obtain s x where
      sx: "r0 = mark s x" "s = ''train'' \<or> s = ''test''" "x \<in> set interactions" by blast
    show "set_of r = ''train'' \<or> set_of r = ''test''"
      using sx by (simp add: r0(2))
    show "unmark r \<in> set interactions"
      using sx by (simp add: r0(2))
  qed
  have rows: "\<forall>r \<in> set traintest.
            (set_of r = ''train'' \<or> set_of r = ''test'') \<and>
            unmark r \<in> set interactions \<and>
            user_id r = int (card {u \<in> ?U. u < user_original r}) \<and>
            item_id r = int (card {i \<in> ?I. i < item_original r}) \<and>
            0 \<le> user_id r \<and> user_id r < int (card ?U) \<and>
            0 \<le> item_id r \<and> item_id r < int (card ?I)"
  proof
    fix r assume r: "r \<in> set traintest"
    have "user_id r = int (card {u \<in> ?U. u < user_original r})"
      unfolding ucode[OF r] using code_card[OF finU uin[OF r]] by simp
    moreover have "item_id r = int (card {i \<in> ?I. i < item_original r})"
      unfolding icode[OF r] using code_card[OF finI iin[OF r]] by simp
    moreover have "user_id r < int (card ?U)"
      unfolding ucode[OF r] using code_less[OF finU uin[OF r]] by simp
    moreover have "item_id r < int (card ?I)"
      unfolding icode[OF r] using code_less[OF finI iin[OF r]] by simp
    moreover have "0 \<le> user_id r" "0 \<le> item_id r"
      unfolding ucode[OF r] icode[OF r] by simp_all
    ultimately show "(set_of r = ''train'' \<or> set_of r = ''test'') \<and>
            unmark r \<in> set interactions \<and>
            user_id r = int (card {u \<in> ?U. u < user_original r}) \<and>
            item_id r = int (card {i \<in> ?I. i < item_original r}) \<and>
            0 \<le> user_id r \<and> user_id r < int (card ?U) \<and>
            0 \<le> item_id r \<and> item_id r < int (card ?I)"
      using setof[OF r] orig[OF r] by blast
  qed
  have same: "\<forall>r \<in> set traintest. \<forall>r' \<in> set traintest.
            (user_id r = user_id r' \<longleftrightarrow> user_original r = user_original r') \<and>
            (item_id r = item_id r' \<longleftrightarrow> item_original r = item_original r')"
  proof (intro ballI conjI)
    fix r r' assume r: "r \<in> set traintest" and r': "r' \<in> set traintest"
    show "user_id r = user_id r' \<longleftrightarrow> user_original r = user_original r'"
      unfolding ucode[OF r] ucode[OF r']
      using code_inj[OF finU uin[OF r] uin[OF r']] by auto
    show "item_id r = item_id r' \<longleftrightarrow> item_original r = item_original r'"
      unfolding icode[OF r] icode[OF r']
      using code_inj[OF finI iin[OF r] iin[OF r']] by auto
  qed
  have "user_id ` set traintest = int ` (\<lambda>v. index_of (sorted_list_of_set ?U) v) ` ?U"
    using ucode by (force simp: image_iff)
  then have denseU: "user_id ` set traintest = {0..<int (card ?U)}"
    unfolding code_image[OF finU] by (simp add: image_int_atLeastLessThan)
  have "item_id ` set traintest = int ` (\<lambda>v. index_of (sorted_list_of_set ?I) v) ` ?I"
    using icode by (force simp: image_iff)
  then have denseI: "item_id ` set traintest = {0..<int (card ?I)}"
    unfolding code_image[OF finI] by (simp add: image_int_atLeastLessThan)
  from rows same denseU denseI show ?thesis by blast
qed

theorem user_timestamp_codes_witness:
  "user_timestamp in_frame_order [row 5 20 40 7, row 9 10 15 3, row 5 10 10 3, row 5 30 30 7, row 5 40 20 3] (1/2) 2 =
     Inr [out_row 0 0 10 3 ''train'' 5 10, out_row 0 3 20 3 ''train'' 5 40,
          out_row 0 2 30 7 ''test'' 5 30, out_row 0 1 40 7 ''test'' 5 20] \<and>
   item_id ` set [out_row 0 0 10 3 ''train'' 5 10, out_row 0 3 20 3 ''train'' 5 40,
          out_row 0 2 30 7 ''test'' 5 30, out_row 0 1 40 7 ''test'' 5 20] =
     {0..<int (card (item_original ` set [out_row 0 0 10 3 ''train'' 5 10, out_row 0 3 20 3 ''train'' 5 40,
          out_row 0 2 30 7 ''test'' 5 30, out_row 0 1 40 7 ''test'' 5 20]))} \<and>
   user_id ` set [out_row 0 0 10 3 ''train'' 5 10, out_row 0 3 20 3 ''train'' 5 40,
          out_row 0 2 30 7 ''test'' 5 30, out_row 0 1 40 7 ''test'' 5 20] =
     {0..<int (card (user_original ` set [out_row 0 0 10 3 ''train'' 5 10, out_row 0 3 20 3 ''train'' 5 40,
          out_row 0 2 30 7 ''test'' 5 30, out_row 0 1 40 7 ''test'' 5 20]))}"
  using user_timestamp_codes[OF worked_split] worked_split by blast

section \<open>Properties of the join\<close>

lemma unmerge_merge_row [simp]: "unmerge (merge_row d a) = d"
  by (simp add: unmerge_def merge_row_def)

lemma item_id_merge_row [simp]: "item_id (merge_row d a) = item_id d"
  by (simp add: merge_row_def)

lemma shares_merge_row [simp]:
  "minority_of (merge_row d a) = minority_share a"
  "majority_of (merge_row d a) = majority_share a"
  by (simp_all add: minority_of_def majority_of_def merge_row_def)

lemma association_row_shares:
  "item_id (association_row g) = item_id g"
  "minority_share (association_row g) = (case gender_1 g of NaN \<Rightarrow> Num 1 | Num x \<Rightarrow> Num x)"
  "majority_share (association_row g) = (case gender_2 g of NaN \<Rightarrow> Num 0 | Num x \<Rightarrow> Num x)"
  by (simp_all add: association_row_def minority_share_def majority_share_def
      minority_lambda_def majority_lambda_def split: float_cell.splits)

lemma pd_merge_rows:
  "m \<in> set (pd_merge data association) \<longleftrightarrow>
     (\<exists>d \<in> set data. \<exists>a \<in> set association. item_id a = item_id d \<and> m = merge_row d a)"
  by (auto simp: pd_merge_def)

lemma filter_unique_key:
  assumes "distinct (map key xs)" "k \<in> key ` set xs"
  shows "\<exists>a. filter (\<lambda>a. key a = k) xs = [a]"
  using assms
proof (induction xs)
  case Nil
  then show ?case by simp
next
  case (Cons x xs)
  show ?case
  proof (cases "key x = k")
    case True
    then have "k \<notin> key ` set xs" using Cons.prems(1) by auto
    then have "filter (\<lambda>a. key a = k) xs = []"
      unfolding filter_empty_conv by (metis imageI)
    with True show ?thesis by simp
  next
    case False
    then show ?thesis using Cons by auto
  qed
qed

lemma pd_merge_unique:
  assumes "distinct (map item_id association)"
  shows "map unmerge (pd_merge data association) =
         filter (\<lambda>d. item_id d \<in> item_id ` set association) data"
proof -
  have one: "map unmerge (map (merge_row d) (filter (\<lambda>a. item_id a = item_id d) association)) =
        (if item_id d \<in> item_id ` set association then [d] else [])" for d :: "'b interaction_scheme"
  proof (cases "item_id d \<in> item_id ` set association")
    case False
    then have "filter (\<lambda>a. item_id a = item_id d) association = []"
      unfolding filter_empty_conv by (metis imageI)
    with False show ?thesis by simp
  next
    case True
    from assms True obtain a where "filter (\<lambda>a. item_id a = item_id d) association = [a]"
      using filter_unique_key[of item_id association "item_id d"] by blast
    with True show ?thesis by (simp add: o_def)
  qed
  have step: "pd_merge (d # ds) association =
      map (merge_row d) (filter (\<lambda>a. item_id a = item_id d) association) @ pd_merge ds association"
    for d :: "'b interaction_scheme" and ds
    by (simp add: pd_merge_def)
  show ?thesis
  proof (induction data)
    case Nil
    then show ?case by (simp add: pd_merge_def)
  next
    case (Cons d ds)
    show ?case
      unfolding step map_append one Cons.IH by simp
  qed
qed

text \<open>
  C8. After the estimator and the inner join on \<open>item_id\<close>, every joined row comes from an
  interaction of \<open>data\<close> and from a row of the association table with the same item, and
  its shares are those the estimator gave that row: the group-1 fraction, or 1.0 where the
  table's fraction is NaN. An interaction of \<open>data\<close> survives the join exactly when its
  item has a row in the table, so an interaction whose item is absent from the table is
  removed and gets no default. With one row per item in the table the join is the filter of
  \<open>data\<close> by the table's items.
\<close>

theorem provider_join:
  "(\<forall>m \<in> set (pd_merge data (gender_item_association table)).
      unmerge m \<in> set data \<and>
      (\<exists>g \<in> set table. item_id g = item_id m \<and>
         minority_of m = (case gender_1 g of NaN \<Rightarrow> Num 1 | Num x \<Rightarrow> Num x) \<and>
         majority_of m = (case gender_2 g of NaN \<Rightarrow> Num 0 | Num x \<Rightarrow> Num x))) \<and>
   (\<forall>d \<in> set data.
      d \<in> unmerge ` set (pd_merge data (gender_item_association table)) \<longleftrightarrow>
      item_id d \<in> item_id ` set table) \<and>
   (distinct (map item_id table) \<longrightarrow>
      map unmerge (pd_merge data (gender_item_association table)) =
      filter (\<lambda>d. item_id d \<in> item_id ` set table) data)"
proof (intro conjI ballI impI)
  let ?A = "gender_item_association table"
  have ids: "map item_id ?A = map item_id table"
    by (simp add: gender_item_association_def association_row_shares o_def)
  then have idset: "item_id ` set ?A = item_id ` set table"
    by (metis set_map)
  {
    fix m assume "m \<in> set (pd_merge data ?A)"
    then obtain d g where d: "d \<in> set data" and g: "g \<in> set table"
      and key: "item_id (association_row g) = item_id d" and m: "m = merge_row d (association_row g)"
      by (auto simp: pd_merge_rows gender_item_association_def)
    show "unmerge m \<in> set data" using d m by simp
    show "\<exists>g \<in> set table. item_id g = item_id m \<and>
         minority_of m = (case gender_1 g of NaN \<Rightarrow> Num 1 | Num x \<Rightarrow> Num x) \<and>
         majority_of m = (case gender_2 g of NaN \<Rightarrow> Num 0 | Num x \<Rightarrow> Num x)"
      using g key unfolding m by (intro bexI[of _ g]) (simp_all add: association_row_shares)
  }
  {
    fix d assume d: "d \<in> set data"
    show "d \<in> unmerge ` set (pd_merge data ?A) \<longleftrightarrow> item_id d \<in> item_id ` set table"
    proof
      assume "d \<in> unmerge ` set (pd_merge data ?A)"
      then obtain d' a where "a \<in> set ?A" "item_id a = item_id d'" "d = unmerge (merge_row d' a)"
        by (auto simp: pd_merge_rows)
      then show "item_id d \<in> item_id ` set table"
        unfolding idset[symmetric] by (metis imageI unmerge_merge_row)
    next
      assume "item_id d \<in> item_id ` set table"
      then obtain a where a: "a \<in> set ?A" "item_id a = item_id d"
        unfolding idset[symmetric] by (auto simp: image_iff)
      then have "merge_row d a \<in> set (pd_merge data ?A)"
        using d by (auto simp: pd_merge_rows)
      then show "d \<in> unmerge ` set (pd_merge data ?A)"
        by (metis image_eqI unmerge_merge_row)
    qed
  }
  {
    assume "distinct (map item_id table)"
    then have "distinct (map item_id ?A)" by (simp only: ids)
    from pd_merge_unique[OF this, of data]
    show "map unmerge (pd_merge data ?A) = filter (\<lambda>d. item_id d \<in> item_id ` set table) data"
      by (simp only: idset)
  }
qed

theorem provider_join_witness:
  "distinct (map item_id [\<lparr>item_id = 20, gender_1 = NaN, gender_2 = NaN\<rparr>,
                          \<lparr>item_id = 30, gender_1 = Num 0, gender_2 = Num 1\<rparr>]) \<and>
   map unmerge (pd_merge [row 5 20 40 7, row 5 99 10 3, row 9 30 30 7]
      (gender_item_association [\<lparr>item_id = 20, gender_1 = NaN, gender_2 = NaN\<rparr>,
                                \<lparr>item_id = 30, gender_1 = Num 0, gender_2 = Num 1\<rparr>])) =
     [row 5 20 40 7, row 9 30 30 7] \<and>
   map minority_of (pd_merge [row 5 20 40 7, row 5 99 10 3, row 9 30 30 7]
      (gender_item_association [\<lparr>item_id = 20, gender_1 = NaN, gender_2 = NaN\<rparr>,
                                \<lparr>item_id = 30, gender_1 = Num 0, gender_2 = Num 1\<rparr>])) =
     [Num 1, Num 0]"
proof -
  let ?t = "[\<lparr>item_id = 20, gender_1 = NaN, gender_2 = NaN\<rparr>,
             \<lparr>item_id = 30, gender_1 = Num 0, gender_2 = Num 1\<rparr>]"
  let ?d = "[row 5 20 40 7, row 5 99 10 3, row 9 30 30 7]"
  have dist: "distinct (map item_id ?t)" by simp
  from provider_join[of ?d ?t] dist
  have "map unmerge (pd_merge ?d (gender_item_association ?t)) =
      filter (\<lambda>d. item_id d \<in> item_id ` set ?t) ?d"
    by blast
  then have "map unmerge (pd_merge ?d (gender_item_association ?t)) = [row 5 20 40 7, row 9 30 30 7]"
    by (simp add: row_def)
  moreover have "map minority_of (pd_merge ?d (gender_item_association ?t)) = [Num 1, Num 0]"
    by (simp add: pd_merge_def gender_item_association_def association_row_def row_def
        minority_lambda_def minority_share_def)
  ultimately show ?thesis using dist by simp
qed

section \<open>Properties of the upsampling pipeline\<close>

lemma run_with_upsampling_train_cases:
  "run_with_upsampling_train real' fake' fakeByPop' frames train umode utarget items_w_min =
     (let p = (if umode = ''real'' then real' frames train ''minority'' utarget
               else if umode = ''fake'' then fake' frames train ''minority'' items_w_min utarget
               else if umode = ''fakebypop''
                    then fakeByPop' frames train ''minority'' items_w_min utarget
               else (train, frames))
      in (fst p, (snd p)[fst p := map (\<lambda>r. r\<lparr>rating := 1\<rparr>) (snd p ! fst p)]))"
  by (simp add: run_with_upsampling_train_def Let_def split_beta)

lemma duplicates_rows:
  assumes "d \<in> set (duplicates copies name df)"
  shows "\<exists>r \<in> set df. positive (share_column name r) \<and> d = r\<lparr>rating := 1\<rparr>"
proof -
  from assms obtain p where p: "p \<in> set (enumerate 0 df)"
    and pos: "positive (share_column name (snd p))"
    and d: "d \<in> set (replicate (copies df (fst p)) ((snd p)\<lparr>rating := 1\<rparr>))"
    unfolding duplicates_def set_concat set_map by (fastforce split: if_splits)
  have "fst p < length df \<and> df ! fst p = snd p"
    using p by (simp add: in_set_enumerate_eq)
  then have "snd p \<in> set df"
    by (metis nth_mem)
  moreover have "d = (snd p)\<lparr>rating := 1\<rparr>"
    using d by simp
  ultimately show ?thesis using pos by blast
qed

lemma upsample_cases:
  assumes "train < length frames"
  shows "upsample copies frames train name target = (train, frames) \<and>
           at_target name target (frames ! train) \<or>
         upsample copies frames train name target =
           (length frames, frames @ [frames ! train @ duplicates copies name (frames ! train)]) \<and>
           \<not> at_target name target (frames ! train)"
  by (simp add: upsample_def new_frame_def Let_def)


lemma run_with_upsampling_train_result:
  assumes live: "train < length frames"
  shows "run_with_upsampling_train (real_upsampler c1) (fake_upsampler c2)
           (fakeByPop_upsampler c3) frames train umode utarget items_w_min =
           (train, frames[train := map (\<lambda>r. r\<lparr>rating := 1\<rparr>) (frames ! train)]) \<or>
         (\<exists>c. run_with_upsampling_train (real_upsampler c1) (fake_upsampler c2)
           (fakeByPop_upsampler c3) frames train umode utarget items_w_min =
           (length frames,
            frames @ [map (\<lambda>r. r\<lparr>rating := 1\<rparr>)
                        (frames ! train @ duplicates c ''minority'' (frames ! train))]) \<and>
            (umode = ''real'' \<or> umode = ''fake'' \<or> umode = ''fakebypop''))"
proof -
  define p where "p = (if umode = ''real'' then real_upsampler c1 frames train ''minority'' utarget
               else if umode = ''fake''
                    then fake_upsampler c2 frames train ''minority'' items_w_min utarget
               else if umode = ''fakebypop''
                    then fakeByPop_upsampler c3 frames train ''minority'' items_w_min utarget
               else (train, frames))"
  have run: "run_with_upsampling_train (real_upsampler c1) (fake_upsampler c2)
           (fakeByPop_upsampler c3) frames train umode utarget items_w_min =
        (fst p, (snd p)[fst p := map (\<lambda>r. r\<lparr>rating := 1\<rparr>) (snd p ! fst p)])"
    unfolding run_with_upsampling_train_cases p_def Let_def ..
  have "p = (train, frames) \<or>
        (\<exists>c. p = (length frames, frames @ [frames ! train @ duplicates c ''minority'' (frames ! train)]) \<and>
             (umode = ''real'' \<or> umode = ''fake'' \<or> umode = ''fakebypop''))"
    unfolding p_def real_upsampler_def fake_upsampler_def fakeByPop_upsampler_def
    using upsample_cases[OF live, of c1 "''minority''" utarget]
      upsample_cases[OF live, of c2 "''minority''" utarget]
      upsample_cases[OF live, of c3 "''minority''" utarget]
    by (cases "umode = ''real''"; cases "umode = ''fake''"; cases "umode = ''fakebypop''") auto
  then show ?thesis
  proof
    assume "p = (train, frames)"
    then show ?thesis unfolding run by simp
  next
    assume "\<exists>c. p = (length frames, frames @ [frames ! train @ duplicates c ''minority'' (frames ! train)]) \<and>
             (umode = ''real'' \<or> umode = ''fake'' \<or> umode = ''fakebypop'')"
    then obtain c where
      p: "p = (length frames, frames @ [frames ! train @ duplicates c ''minority'' (frames ! train)])"
      and m: "umode = ''real'' \<or> umode = ''fake'' \<or> umode = ''fakebypop''"
      by blast
    have "(snd p)[fst p := map (\<lambda>r. r\<lparr>rating := 1\<rparr>) (snd p ! fst p)] =
        frames @ [map (\<lambda>r. r\<lparr>rating := 1\<rparr>)
                        (frames ! train @ duplicates c ''minority'' (frames ! train))]"
      unfolding p by simp
    then show ?thesis unfolding run using p m by auto
  qed
qed

text \<open>
  C2, as the code has it, on the upsamplers of the spec. The frame the model receives holds
  the rows of the caller's frame, all of them and in their order, followed by added rows;
  each added row is a duplicate of a row of the caller's frame whose minority share is
  positive; every row of it, original or added, has \<open>rating\<close> 1.0 and every other field as
  in its original. When an upsampler built a new frame, the caller's frame is as it was.
  When the mode names no upsampler, or the frame was already at the target, the frame the
  model receives is the caller's own: the assignment \<open>train['rating'] = 1.0\<close> has written
  into it, and no row was added. No other frame is touched.
\<close>

theorem run_with_upsampling_frames:
  assumes live: "train < length frames"
  shows "let run = run_with_upsampling_train (real_upsampler c1) (fake_upsampler c2)
                     (fakeByPop_upsampler c3) frames train umode utarget items_w_min;
             handed = fst run; after = snd run; df = frames ! train
         in handed < length after \<and>
            (\<exists>dups. after ! handed = map (\<lambda>r. r\<lparr>rating := 1\<rparr>) df @ dups \<and>
               (\<forall>d \<in> set dups. \<exists>r \<in> set df.
                  positive (share_column ''minority'' r) \<and> d = r\<lparr>rating := 1\<rparr>)) \<and>
            (handed = train \<and> after ! train = map (\<lambda>r. r\<lparr>rating := 1\<rparr>) df \<or>
             handed = length frames \<and> after ! train = df) \<and>
            (umode \<noteq> ''real'' \<and> umode \<noteq> ''fake'' \<and> umode \<noteq> ''fakebypop'' \<longrightarrow> handed = train) \<and>
            (\<forall>i < length frames. i \<noteq> train \<longrightarrow> after ! i = frames ! i)"
proof -
  let ?run = "run_with_upsampling_train (real_upsampler c1) (fake_upsampler c2)
                     (fakeByPop_upsampler c3) frames train umode utarget items_w_min"
  let ?df = "frames ! train"
  from run_with_upsampling_train_result[OF live, of c1 c2 c3 umode utarget items_w_min]
  consider (same) "?run = (train, frames[train := map (\<lambda>r. r\<lparr>rating := 1\<rparr>) ?df])"
    | (new) c where "?run = (length frames,
            frames @ [map (\<lambda>r. r\<lparr>rating := 1\<rparr>) (?df @ duplicates c ''minority'' ?df)])"
        "umode = ''real'' \<or> umode = ''fake'' \<or> umode = ''fakebypop''"
    by blast
  then show ?thesis
  proof cases
    case same
    have "\<exists>dups. map (\<lambda>r. r\<lparr>rating := 1\<rparr>) ?df = map (\<lambda>r. r\<lparr>rating := 1\<rparr>) ?df @ dups \<and>
               (\<forall>d \<in> set dups. \<exists>r \<in> set ?df.
                  positive (share_column ''minority'' r) \<and> d = r\<lparr>rating := 1\<rparr>)"
      by (intro exI[of _ "[]"]) simp
    then show ?thesis
      unfolding Let_def same using live by simp
  next
    case new
    let ?dups = "map (\<lambda>r. r\<lparr>rating := 1\<rparr>) (duplicates c ''minority'' ?df)"
    have dup: "\<forall>d \<in> set ?dups. \<exists>r \<in> set ?df.
                  positive (share_column ''minority'' r) \<and> d = r\<lparr>rating := 1\<rparr>"
    proof
      fix d assume "d \<in> set ?dups"
      then obtain d0 where "d0 \<in> set (duplicates c ''minority'' ?df)" "d = d0\<lparr>rating := 1\<rparr>"
        by auto
      with duplicates_rows[of d0 c "''minority''" ?df]
      show "\<exists>r \<in> set ?df. positive (share_column ''minority'' r) \<and> d = r\<lparr>rating := 1\<rparr>"
        by auto
    qed
    have ex: "\<exists>dups. map (\<lambda>r. r\<lparr>rating := 1\<rparr>) (?df @ duplicates c ''minority'' ?df) =
                 map (\<lambda>r. r\<lparr>rating := 1\<rparr>) ?df @ dups \<and>
               (\<forall>d \<in> set dups. \<exists>r \<in> set ?df.
                  positive (share_column ''minority'' r) \<and> d = r\<lparr>rating := 1\<rparr>)"
      using dup by (intro exI[of _ ?dups]) simp
    show ?thesis
      unfolding Let_def new(1) using live new(2) ex by (simp add: nth_append)
  qed
qed


lemma worked_fake:
  "run_with_upsampling_train (real_upsampler two_copies) (fake_upsampler two_copies)
      (fakeByPop_upsampler two_copies) [four_rows] 0 ''fake'' (3/10) [3] =
   (1, [four_rows,
        [train_row 0 3 1 10 1, train_row 0 4 1 20 0, train_row 1 5 1 30 0, train_row 1 6 1 40 0,
         train_row 0 3 1 10 1, train_row 0 3 1 10 1]])"
  by code_simp

lemma worked_none:
  "run_with_upsampling_train (real_upsampler two_copies) (fake_upsampler two_copies)
      (fakeByPop_upsampler two_copies) [four_rows] 0 ''none'' (3/10) [3] =
   (0, [[train_row 0 3 1 10 1, train_row 0 4 1 20 0, train_row 1 5 1 30 0, train_row 1 6 1 40 0]])"
  by code_simp

theorem run_with_upsampling_frames_witness:
  "(0 :: nat) < length [four_rows] \<and>
   fst (run_with_upsampling_train (real_upsampler two_copies) (fake_upsampler two_copies)
      (fakeByPop_upsampler two_copies) [four_rows] 0 ''fake'' (3/10) [3]) = 1 \<and>
   snd (run_with_upsampling_train (real_upsampler two_copies) (fake_upsampler two_copies)
      (fakeByPop_upsampler two_copies) [four_rows] 0 ''fake'' (3/10) [3]) ! 0 = four_rows \<and>
   fst (run_with_upsampling_train (real_upsampler two_copies) (fake_upsampler two_copies)
      (fakeByPop_upsampler two_copies) [four_rows] 0 ''none'' (3/10) [3]) = 0"
proof -
  have live: "(0 :: nat) < length [four_rows]" by simp
  have handed: "fst (run_with_upsampling_train (real_upsampler two_copies) (fake_upsampler two_copies)
      (fakeByPop_upsampler two_copies) [four_rows] 0 ''fake'' (3/10) [3]) = 1"
    by (simp add: worked_fake)
  from run_with_upsampling_frames[OF live, of two_copies two_copies two_copies "''fake''" "3/10" "[3]"]
  have kept: "snd (run_with_upsampling_train (real_upsampler two_copies) (fake_upsampler two_copies)
      (fakeByPop_upsampler two_copies) [four_rows] 0 ''fake'' (3/10) [3]) ! 0 = four_rows"
    unfolding Let_def handed by simp
  from run_with_upsampling_frames[OF live, of two_copies two_copies two_copies "''none''" "3/10" "[3]"]
  have "''none'' \<noteq> ''real'' \<and> ''none'' \<noteq> ''fake'' \<and> ''none'' \<noteq> ''fakebypop'' \<longrightarrow>
      fst (run_with_upsampling_train (real_upsampler two_copies) (fake_upsampler two_copies)
      (fakeByPop_upsampler two_copies) [four_rows] 0 ''none'' (3/10) [3]) = 0"
    unfolding Let_def by (elim conjE)
  then have own: "fst (run_with_upsampling_train (real_upsampler two_copies) (fake_upsampler two_copies)
      (fakeByPop_upsampler two_copies) [four_rows] 0 ''none'' (3/10) [3]) = 0"
    by simp
  from live handed kept own show ?thesis by (intro conjI)
qed

text \<open>
  C2, as stated, fails: the original rows do not keep their prior \<open>rating\<close>. The caller's
  frame has ratings 5, 3, 4 and 2 (the provider-fairness notebook does not collapse the
  ratings of the csv before the split). In mode \<open>fake\<close> the frame the model receives has
  rating 1.0 on the four original rows as on the two added ones, so the row with rating 5 is
  not in it. In a mode that names no upsampler the caller's own frame comes back with
  rating 1.0 on every row.
\<close>

theorem run_with_upsampling_overwrites_rating:
  "run_with_upsampling_train (real_upsampler two_copies) (fake_upsampler two_copies)
      (fakeByPop_upsampler two_copies) [four_rows] 0 ''fake'' (3/10) [3] =
   (1, [four_rows,
        [train_row 0 3 1 10 1, train_row 0 4 1 20 0, train_row 1 5 1 30 0, train_row 1 6 1 40 0,
         train_row 0 3 1 10 1, train_row 0 3 1 10 1]]) \<and>
   run_with_upsampling_train (real_upsampler two_copies) (fake_upsampler two_copies)
      (fakeByPop_upsampler two_copies) [four_rows] 0 ''none'' (3/10) [3] =
   (0, [[train_row 0 3 1 10 1, train_row 0 4 1 20 0, train_row 1 5 1 30 0, train_row 1 6 1 40 0]]) \<and>
   four_rows ! 0 = train_row 0 3 5 10 1 \<and>
   rating (train_row 0 3 5 10 1) = 5 \<and>
   rating (train_row 0 3 1 10 1) = 1 \<and>
   train_row 0 3 5 10 1 \<notin> set [train_row 0 3 1 10 1, train_row 0 4 1 20 0, train_row 1 5 1 30 0,
      train_row 1 6 1 40 0, train_row 0 3 1 10 1, train_row 0 3 1 10 1]"
proof -
  have "four_rows ! 0 = train_row 0 3 5 10 1"
    by (simp add: four_rows_def)
  moreover have "rating (train_row 0 3 5 10 1) = 5" "rating (train_row 0 3 1 10 1) = 1"
    by (simp_all add: train_row_def)
  moreover have "train_row 0 3 5 10 1 \<notin> set [train_row 0 3 1 10 1, train_row 0 4 1 20 0,
      train_row 1 5 1 30 0, train_row 1 6 1 40 0, train_row 0 3 1 10 1, train_row 0 3 1 10 1]"
    by (simp add: train_row_def)
  ultimately show ?thesis
    using worked_fake worked_none by (intro conjI)
qed

section \<open>The category vector against the dense item coding\<close>

text \<open>
  C9. The notebook says of \<open>category_per_item\<close> that it holds ``the integer-encoded
  category of the item with id X at position X''. The vector follows the order in which the
  items first occur in the split, not the order of their codes. On the input below one user
  rates item 20 (category 7) and then item 10 (category 3): the split codes item 10 as 0 and
  item 20 as 1, and the vector is \<open>[7, 3]\<close>, so position 0 holds the category of item 1 and
  position 1 the category of item 0, whatever the sort does with ties (there are none).
\<close>

theorem category_per_item_misaligned:
  "user_timestamp ties [row 1 20 1 7, row 1 10 2 3] (1/2) 2 =
     Inr [out_row 0 1 1 7 ''train'' 1 20, out_row 0 0 2 3 ''test'' 1 10] \<and>
   map (\<lambda>r. (item_id r, type_id r)) [out_row 0 1 1 7 ''train'' 1 20, out_row 0 0 2 3 ''test'' 1 10] =
     [(1, 7), (0, 3)] \<and>
   category_per_item [out_row 0 1 1 7 ''train'' 1 20, out_row 0 0 2 3 ''test'' 1 10] = [7, 3] \<and>
   category_per_item [out_row 0 1 1 7 ''train'' 1 20, out_row 0 0 2 3 ''test'' 1 10] ! 0 = 7 \<and>
   category_per_item [out_row 0 1 1 7 ''train'' 1 20, out_row 0 0 2 3 ''test'' 1 10] ! 1 = 3"
proof -
  have "list_all (\<lambda>g. distinct (map timestamp (snd g)))
          (groupby_user [row 1 20 1 7, row 1 10 2 3])"
    by code_simp
  then have "user_timestamp ties [row 1 20 1 7, row 1 10 2 3] (1/2) 2 =
      user_timestamp in_frame_order [row 1 20 1 7, row 1 10 2 3] (1/2) 2"
    by (rule user_timestamp_ties)
  also have "\<dots> = Inr [out_row 0 1 1 7 ''train'' 1 20, out_row 0 0 2 3 ''test'' 1 10]"
    by code_simp
  finally have "user_timestamp ties [row 1 20 1 7, row 1 10 2 3] (1/2) 2 =
     Inr [out_row 0 1 1 7 ''train'' 1 20, out_row 0 0 2 3 ''test'' 1 10]" .
  moreover have "category_per_item [out_row 0 1 1 7 ''train'' 1 20, out_row 0 0 2 3 ''test'' 1 10] = [7, 3]"
    by (simp add: category_per_item_def drop_duplicates_def out_row_def)
  ultimately show ?thesis by (simp add: out_row_def)
qed

section \<open>Properties of the life cycle\<close>

inductive_cases call_trainE: "call fit score evaluate m Train r"
inductive_cases call_predictE: "call fit score evaluate m Predict r"
inductive_cases call_testE: "call fit score evaluate m Test r"

text \<open>
  C4. On a model that was never trained, \<open>predict\<close> can only fail with the
  state-precondition error; on a model that was not yet through \<open>predict\<close> (never trained,
  or trained), \<open>test\<close> can only fail with it. From a fresh model the order train, predict,
  test succeeds call by call with one possible result each: \<open>train\<close> leaves the model
  \<open>Trained\<close>, \<open>predict\<close> stores the relevance matrix scored from the trained embeddings,
  \<open>test\<close> stores the metrics computed from that matrix.
\<close>

theorem call_order:
  "(state m = Uninitialized \<longrightarrow>
      (\<forall>r. call fit score evaluate m Predict r \<longleftrightarrow> r = Inl StatePrecondition)) \<and>
   (state m = Uninitialized \<or> state m = Trained \<longrightarrow>
      (\<forall>r. call fit score evaluate m Test r \<longleftrightarrow> r = Inl StatePrecondition)) \<and>
   (state m = Uninitialized \<longrightarrow>
      (\<exists>m1 m2 m3.
         (\<forall>r. call fit score evaluate m Train r \<longleftrightarrow> r = Inr m1) \<and> state m1 = Trained \<and>
         (\<forall>r. call fit score evaluate m1 Predict r \<longleftrightarrow> r = Inr m2) \<and> state m2 = Predicted \<and>
         predictions m2 = Some (score (embeddings m1)) \<and>
         (\<forall>r. call fit score evaluate m2 Test r \<longleftrightarrow> r = Inr m3) \<and> state m3 = Evaluated \<and>
         metrics m3 = Some (evaluate (score (embeddings m1)))))"
proof (intro conjI impI)
  assume "state m = Uninitialized"
  then show "\<forall>r. call fit score evaluate m Predict r \<longleftrightarrow> r = Inl StatePrecondition"
    by (auto elim: call_predictE intro: predict_fails)
next
  assume "state m = Uninitialized \<or> state m = Trained"
  then show "\<forall>r. call fit score evaluate m Test r \<longleftrightarrow> r = Inl StatePrecondition"
    by (auto elim: call_testE intro: test_fails)
next
  assume u: "state m = Uninitialized"
  let ?m1 = "m\<lparr>state := Trained, embeddings := fit (embeddings m)\<rparr>"
  let ?m2 = "?m1\<lparr>state := Predicted, predictions := Some (score (embeddings ?m1))\<rparr>"
  let ?m3 = "?m2\<lparr>state := Evaluated, metrics := Some (evaluate (score (embeddings ?m1)))\<rparr>"
  have t: "call fit score evaluate m Train (Inr ?m1)"
    using u by (intro train_moves) simp
  have p: "call fit score evaluate ?m1 Predict (Inr ?m2)"
    by (intro predict_moves) simp
  have e: "call fit score evaluate ?m2 Test (Inr ?m3)"
    using test_moves[of ?m2 "score (embeddings ?m1)" fit score evaluate] by simp
  have 1: "\<forall>r. call fit score evaluate m Train r \<longleftrightarrow> r = Inr ?m1"
    using t by (auto elim: call_trainE)
  have 2: "\<forall>r. call fit score evaluate ?m1 Predict r \<longleftrightarrow> r = Inr ?m2"
    using p by (auto elim: call_predictE)
  have 3: "\<forall>r. call fit score evaluate ?m2 Test r \<longleftrightarrow> r = Inr ?m3"
    using e by (auto elim: call_testE)
  show "\<exists>m1 m2 m3.
         (\<forall>r. call fit score evaluate m Train r \<longleftrightarrow> r = Inr m1) \<and> state m1 = Trained \<and>
         (\<forall>r. call fit score evaluate m1 Predict r \<longleftrightarrow> r = Inr m2) \<and> state m2 = Predicted \<and>
         predictions m2 = Some (score (embeddings m1)) \<and>
         (\<forall>r. call fit score evaluate m2 Test r \<longleftrightarrow> r = Inr m3) \<and> state m3 = Evaluated \<and>
         metrics m3 = Some (evaluate (score (embeddings m1)))"
    by (intro exI[of _ ?m1] exI[of _ ?m2] exI[of _ ?m3] conjI 1 2 3) simp_all
qed

theorem call_order_witness:
  "state (fresh_model (0::nat) :: (nat, nat, nat) model) = Uninitialized \<and>
   call Suc id Suc (fresh_model (0::nat) :: (nat, nat, nat) model) Predict (Inl StatePrecondition) \<and>
   call Suc id Suc (fresh_model (0::nat) :: (nat, nat, nat) model) Test (Inl StatePrecondition) \<and>
   call Suc id Suc (fresh_model (0::nat) :: (nat, nat, nat) model) Train
     (Inr \<lparr>state = Trained, embeddings = 1, predictions = None, metrics = None\<rparr>)"
proof -
  let ?m = "fresh_model (0::nat) :: (nat, nat, nat) model"
  have u: "state ?m = Uninitialized"
    by (simp add: fresh_model_def)
  from call_order[of ?m Suc id Suc] u
  have "call Suc id Suc ?m Predict (Inl StatePrecondition)"
    and "call Suc id Suc ?m Test (Inl StatePrecondition)"
    by simp_all
  moreover have "call Suc id Suc ?m Train
     (Inr \<lparr>state = Trained, embeddings = 1, predictions = None, metrics = None\<rparr>)"
    using train_moves[of ?m Suc id Suc] by (simp add: fresh_model_def)
  ultimately show ?thesis using u by simp
qed


section \<open>Properties of the re-ranker\<close>

lemma maximizing_first:
  "\<forall>c \<in> set cs. f c \<le> f b \<Longrightarrow> maximizing f b cs = b"
  by (induction cs) auto

lemma greedy_zero_lambda:
  assumes "sorted_wrt (\<lambda>a b. nrel b \<le> nrel a) pool"
  shows "greedy 0 nrel dterm k pool placed = placed @ take k pool"
  using assms
proof (induction k arbitrary: pool placed)
  case 0
  then show ?case by simp
next
  case (Suc k)
  show ?case
  proof (cases pool)
    case Nil
    then show ?thesis by simp
  next
    case (Cons c cs)
    have le: "\<forall>x \<in> set cs. objective 0 nrel dterm placed x \<le> objective 0 nrel dterm placed c"
      using Suc.prems Cons by (simp add: objective_def)
    have best: "maximizing (objective 0 nrel dterm placed) c cs = c"
      using le by (rule maximizing_first)
    have "sorted_wrt (\<lambda>a b. nrel b \<le> nrel a) cs"
      using Suc.prems Cons by simp
    from Suc.IH[OF this] show ?thesis
      using Cons best by simp
  qed
qed

text \<open>
  C5. For a user whose original list \<open>ranking\<close> is in non-increasing order of relevance,
  and a normalization that keeps the order of relevance, the greedy selection with
  \<open>\<lambda> = 0\<close> returns the first \<open>k\<close> items of the pool in their original order, whatever the
  diversity term; the pool is the first \<open>rmax\<close> items, so for \<open>k \<le> rmax\<close> this is the
  original top-\<open>k\<close> list.
\<close>

theorem rerank_zero_lambda:
  assumes sorted: "sorted_wrt (\<lambda>a b. relevance b \<le> relevance a) ranking"
    and mono: "\<forall>x y. x \<le> y \<longrightarrow> normalization x \<le> normalization y"
  shows "rerank 0 k rmax (\<lambda>c. normalization (relevance c)) dterm ranking = take k (take rmax ranking) \<and>
         (k \<le> rmax \<longrightarrow>
            rerank 0 k rmax (\<lambda>c. normalization (relevance c)) dterm ranking = take k ranking)"
proof -
  have "sorted_wrt (\<lambda>a b. normalization (relevance b) \<le> normalization (relevance a)) ranking"
    using sorted mono by (auto intro: sorted_wrt_mono_rel[rotated])
  then have "sorted_wrt (\<lambda>a b. normalization (relevance b) \<le> normalization (relevance a)) (take rmax ranking)"
    by (rule sorted_wrt_take)
  from greedy_zero_lambda[OF this, of dterm k "[]"]
  show ?thesis by (simp add: rerank_def min_def)
qed

theorem rerank_zero_lambda_witness:
  "sorted_wrt (\<lambda>a b. scores_example b \<le> scores_example a) [7, 3, 9, 4] \<and>
   rerank 0 2 3 (\<lambda>c. min_max_example (scores_example c)) tail_bonus_example [7, 3, 9, 4] = [7, 3]"
proof -
  have s: "sorted_wrt (\<lambda>a b. scores_example b \<le> scores_example a) [7, 3, 9, 4]"
    by (simp add: scores_example_def)
  have m: "\<forall>x y. x \<le> y \<longrightarrow> min_max_example x \<le> min_max_example y"
    by (simp add: min_max_example_def divide_right_mono)
  from rerank_zero_lambda[OF s m, of 2 3 tail_bonus_example] s
  show ?thesis by simp
qed

section \<open>Properties of NDCG\<close>

text \<open>
  C7. For a user with no test item NDCG is 0 at every cutoff and for every ranked list, not
  NaN: the quotient of the two sums, both 0 there, would be NaN.
\<close>

theorem ndcg_no_test_items:
  "ndcg discount k ranked [] = Num 0 \<and>
   fdiv (dcg discount k ranked []) (idcg discount k []) = NaN"
  by (simp add: ndcg_def fdiv_def idcg_def)

end
